theory Spec2Isabelle
  imports Main "HOL-Library.Sublist"
begin

section \<open>The association filter of \<open>risk-scoring/scripts/query_gwas.py\<close>\<close>

subsection \<open>Tables, exceptions and the files of the outside world\<close>

text \<open>
  A pandas data frame is a list of column labels and a list of rows, each row holding one
  cell per column. Cells are carried through the filter unchanged; only the cells of the
  column \<open>rsid\<close> are inspected, and there they are compared with strings. A cell is
  therefore the text it holds, or \<open>None\<close> for a missing value (NULL, NaN, None).
  Column labels of one frame are taken to be distinct, as they are in every DuckDB table
  and in every Parquet file pandas writes.
\<close>

type_synonym cell = "string option"

record table =
  columns :: "string list"
  rows :: "cell list list"

text \<open>
  The module raises one exception class, \<open>GWASQueryError\<close>, with a message. Whatever
  pandas, pyarrow or duckdb raise is a \<open>LibraryError\<close> with the library's message.
\<close>

datatype exn = GWASQueryError string | LibraryError string

fun str :: "exn \<Rightarrow> string" where
  "str (GWASQueryError m) = m"
| "str (LibraryError m) = m"

text \<open>
  A DuckDB database is the list of its tables, in the order \<open>SHOW TABLES\<close> reports them,
  under distinct names.
\<close>

type_synonym database = "(string \<times> table) list"

text \<open>
  A file on disk is given by what the two readers make of it: \<open>pd.read_parquet\<close> and
  \<open>duckdb.connect\<close> each return a value or raise.
\<close>

record gwas_file =
  read_parquet :: "exn + table"
  duckdb_connect :: "exn + database"

text \<open>
  The world is the file system (\<open>os.path.exists p\<close> is \<open>files w p \<noteq> None\<close>) and what the
  libraries do where the model does not compute it. These are parameters; nothing is
  assumed of them.
  \<^item> \<open>unicode_lower\<close>: what \<open>str.lower\<close> returns for a text with characters outside ASCII.
  \<^item> \<open>unsafe_insert\<close>: what DuckDB does with an \<open>INSERT\<close> statement whose text has a quote
    character inside an identifier. The source pastes identifiers into the statement
    unescaped, so such a text is no longer the list of literals the source meant, and
    DuckDB either raises or inserts the values it reads.
  \<^item> \<open>reserved_words\<close>: the keywords of DuckDB's parser, in lower case. The source pastes
    the table name into the query unquoted, so a name that is a keyword, or is no
    identifier at all, does not denote the table.
  \<^item> \<open>unsafe_join\<close>: what DuckDB does with the query when the table name is such a name:
    it raises, or returns what the text means.
  \<^item> \<open>binder_error\<close>: the message of DuckDB's binder when the table, with the given
    columns, has none that \<open>a.rsid\<close> can mean.
  \<^item> \<open>result_order\<close>: the order in which DuckDB returns the rows of the join; SQL fixes
    none.
\<close>

record world =
  files :: "string \<rightharpoonup> gwas_file"
  unicode_lower :: "string \<Rightarrow> string"
  unsafe_insert :: "string \<Rightarrow> exn + string list"
  reserved_words :: "string list"
  unsafe_join :: "string \<Rightarrow> exn + table"
  binder_error :: "string list \<Rightarrow> string"
  result_order :: "cell list list \<Rightarrow> cell list list"

subsection \<open>Library functions: \<open>os.path.splitext\<close>, \<open>str.lower\<close>, \<open>str.join\<close>\<close>

text \<open>\<open>p.rfind(c)\<close>: the last index of \<open>c\<close>, or \<open>-1\<close>.\<close>

fun rfind :: "char \<Rightarrow> string \<Rightarrow> int" where
  "rfind c [] = - 1"
| "rfind c (x # xs) =
     (let r = rfind c xs in if 0 \<le> r then r + 1 else if x = c then 0 else - 1)"

text \<open>
  \<open>posixpath.splitext\<close>: the extension starts at the last dot of the last path component,
  unless that component has nothing but dots before it.
\<close>

definition splitext :: "string \<Rightarrow> string \<times> string" where
  "splitext p =
     (let sepIndex = rfind (CHR ''/'') p; dotIndex = rfind (CHR ''.'') p in
      if dotIndex > sepIndex \<and>
         list_ex (\<lambda>c. c \<noteq> CHR ''.'')
           (take (nat (dotIndex - (sepIndex + 1))) (drop (nat (sepIndex + 1)) p))
      then (take (nat dotIndex) p, drop (nat dotIndex) p)
      else (p, []))"

text \<open>
  A string of the model is the UTF-8 text of a Python string. Slash and dot are single
  bytes that occur in no other character, so \<open>splitext\<close> is the same on both.

  \<open>str.lower\<close>. On ASCII text the 26 capital letters are replaced and nothing else is. On
  other text Python follows the Unicode tables, which also send some characters outside
  ASCII to ASCII letters; there the result is the world's.
\<close>

definition lower_char :: "char \<Rightarrow> char" where
  "lower_char c =
     (case map_of (zip ''ABCDEFGHIJKLMNOPQRSTUVWXYZ'' ''abcdefghijklmnopqrstuvwxyz'') c of
        Some l \<Rightarrow> l
      | None \<Rightarrow> c)"

definition ascii_lower :: "string \<Rightarrow> string" where
  "ascii_lower s = map lower_char s"

definition is_ascii :: "string \<Rightarrow> bool" where
  "is_ascii s = list_all (\<lambda>c. \<not> digit7 c) s"

definition lower :: "world \<Rightarrow> string \<Rightarrow> string" where
  "lower w s = (if is_ascii s then ascii_lower s else unicode_lower w s)"

fun join_str :: "string \<Rightarrow> string list \<Rightarrow> string" where
  "join_str sep [] = []"
| "join_str sep [x] = x"
| "join_str sep (x # y # ys) = x @ sep @ join_str sep (y # ys)"

subsection \<open>Data frame operations\<close>

definition REQUIRED_COLUMNS :: "string list" where
  "REQUIRED_COLUMNS =
     [''rsid'', ''risk_allele'', ''pvalue'', ''beta'', ''trait'', ''trait_uri'', ''study_id'',
      ''mapped_gene'', ''upstream_gene_id'', ''downstream_gene_id'', ''snp_gene_ids'',
      ''chr'', ''chr_pos'', ''context'', ''is_intergenic'', ''risk_allele_freq'', ''ci_95_text'']"

text \<open>The cell of a row under a column label.\<close>

definition cell_at :: "table \<Rightarrow> cell list \<Rightarrow> string \<Rightarrow> cell" where
  "cell_at df r col = (case map_of (zip (columns df) r) col of Some c \<Rightarrow> c | None \<Rightarrow> None)"

text \<open>\<open>pd.DataFrame(columns=REQUIRED_COLUMNS)\<close>\<close>

definition empty_frame :: table where
  "empty_frame = \<lparr>columns = REQUIRED_COLUMNS, rows = []\<rparr>"

text \<open>\<open>[col for col in REQUIRED_COLUMNS if col not in df.columns]\<close>\<close>

definition missing_columns :: "table \<Rightarrow> string list" where
  "missing_columns df = filter (\<lambda>col. col \<notin> set (columns df)) REQUIRED_COLUMNS"

text \<open>\<open>df[df['rsid'].isin(set(rsid_list))]\<close>: rows are kept in the order of the frame.\<close>

definition isin_filter :: "table \<Rightarrow> string list \<Rightarrow> table" where
  "isin_filter df rsid_list =
     df\<lparr>rows := filter (\<lambda>r. case cell_at df r ''rsid'' of
                                Some x \<Rightarrow> x \<in> set rsid_list
                              | None \<Rightarrow> False) (rows df)\<rparr>"

text \<open>\<open>df[[col for col in REQUIRED_COLUMNS]]\<close>\<close>

definition select_columns :: "table \<Rightarrow> string list \<Rightarrow> table" where
  "select_columns df cols =
     \<lparr>columns = cols, rows = map (\<lambda>r. map (cell_at df r) cols) (rows df)\<rparr>"

text \<open>\<open>df['rsid']\<close>\<close>

definition rsid_column :: "table \<Rightarrow> cell list" where
  "rsid_column df = map (\<lambda>r. cell_at df r ''rsid'') (rows df)"

subsection \<open>The DuckDB connection\<close>

text \<open>
  A connection keeps the tables of the database, the temporary table \<open>filter_rsid\<close> once it
  is created, whether \<open>close\<close> was called, and the statements passed to \<open>execute\<close>, oldest
  first. Closing a connection drops its temporary tables.
\<close>

datatype statement =
    ShowTables
  | CreateTempTable
  | InsertValues "string list"
  | SelectJoin string

record connection =
  catalog :: database
  filter_rsid :: "string list option"
  is_closed :: bool
  executed :: "statement list"

definition connect :: "database \<Rightarrow> connection" where
  "connect db = \<lparr>catalog = db, filter_rsid = None, is_closed = False, executed = []\<rparr>"

definition close :: "connection \<Rightarrow> connection" where
  "close con = con\<lparr>filter_rsid := None, is_closed := True\<rparr>"

text \<open>\<open>[row[0] for row in con.execute("SHOW TABLES").fetchall()]\<close>\<close>

definition show_tables :: "connection \<Rightarrow> string list \<times> connection" where
  "show_tables con = (map fst (catalog con), con\<lparr>executed := executed con @ [ShowTables]\<rparr>)"

text \<open>\<open>con.execute("CREATE TEMP TABLE filter_rsid (rsid VARCHAR)")\<close>\<close>

definition create_temp_table :: "connection \<Rightarrow> connection" where
  "create_temp_table con =
     con\<lparr>filter_rsid := Some [], executed := executed con @ [CreateTempTable]\<rparr>"

text \<open>
  The text of one insert statement, as the source formats it:
  \<open>"INSERT INTO filter_rsid VALUES {}".format(','.join([f"('{r}')" for r in chunk]))\<close>
\<close>

definition insert_text :: "string list \<Rightarrow> string" where
  "insert_text chunk =
     ''INSERT INTO filter_rsid VALUES '' @
     join_str '','' (map (\<lambda>r. [CHR ''('', CHR 0x27] @ r @ [CHR 0x27, CHR '')'']) chunk)"

text \<open>
  Executing it. Where no identifier of the chunk holds a quote character, the statement is
  a list of string literals and adds exactly the chunk to the temporary table. Otherwise
  the outcome is the world's \<open>unsafe_insert\<close> at the statement's text.
\<close>

definition exec_insert :: "world \<Rightarrow> connection \<Rightarrow> string list \<Rightarrow> exn option \<times> connection" where
  "exec_insert w con chunk =
     (let con' = con\<lparr>executed := executed con @ [InsertValues chunk]\<rparr>;
          outcome = (if list_all (\<lambda>r. CHR 0x27 \<notin> set r) chunk then Inr chunk
                     else unsafe_insert w (insert_text chunk))
      in case outcome of
           Inl e \<Rightarrow> (Some e, con')
         | Inr vs \<Rightarrow>
             (case filter_rsid con' of
                None \<Rightarrow> (Some (LibraryError ''Catalog Error: Table with name filter_rsid does not exist''), con')
              | Some f \<Rightarrow> (None, con'\<lparr>filter_rsid := Some (f @ vs)\<rparr>)))"

definition chunk_size :: nat where
  "chunk_size = 50000"

text \<open>
  \<open>for i in range(0, len(rsid_list), chunk_size): chunk = rsid_list[i:i+chunk_size]; ...\<close>
  An exception of an insert leaves the loop.
\<close>

function insert_chunks :: "world \<Rightarrow> connection \<Rightarrow> string list \<Rightarrow> nat \<Rightarrow> exn option \<times> connection" where
  "insert_chunks w con rsid_list i =
     (if i < length rsid_list then
        (case exec_insert w con (take chunk_size (drop i rsid_list)) of
           (Some e, con') \<Rightarrow> (Some e, con')
         | (None, con') \<Rightarrow> insert_chunks w con' rsid_list (i + chunk_size))
      else (None, con))"
  by pat_completeness auto
termination
  by (relation "measure (\<lambda>(w, con, rsid_list, i). length rsid_list - i)")
     (auto simp: chunk_size_def)

declare insert_chunks.simps [simp del]

text \<open>
  The chunks the loop forms from index \<open>i\<close> on: \<open>rsid_list[i:i+chunk_size]\<close>,
  \<open>rsid_list[i+chunk_size:i+2*chunk_size]\<close>, and so on.
\<close>

function batches :: "string list \<Rightarrow> nat \<Rightarrow> string list list" where
  "batches rsid_list i =
     (if i < length rsid_list
      then take chunk_size (drop i rsid_list) # batches rsid_list (i + chunk_size)
      else [])"
  by pat_completeness auto
termination
  by (relation "measure (\<lambda>(rsid_list, i). length rsid_list - i)")
     (auto simp: chunk_size_def)

declare batches.simps [simp del]

text \<open>
  The text of the query, as the source formats it (lines 77 to 80):
  \<open>SELECT a.* FROM {table} a INNER JOIN filter_rsid f ON a.rsid = f.rsid\<close>, on three
  indented lines.
\<close>

definition join_text :: "string \<Rightarrow> string" where
  "join_text tbl =
     [CHR 0x0A] @ replicate 16 (CHR '' '') @ ''SELECT a.* FROM '' @ tbl @ '' a'' @
     [CHR 0x0A] @ replicate 16 (CHR '' '') @ ''INNER JOIN filter_rsid f ON a.rsid = f.rsid'' @
     [CHR 0x0A] @ replicate 12 (CHR '' '')"

text \<open>
  The table name stands unquoted in that text. It denotes the table of that name when it
  is an identifier (letters, digits and underscores, not starting with a digit), no
  keyword, and not the name of the temporary table.
\<close>

definition identifier_char :: "char \<Rightarrow> bool" where
  "identifier_char c =
     (c \<in> set ''abcdefghijklmnopqrstuvwxyzABCDEFGHIJKLMNOPQRSTUVWXYZ0123456789_'')"

definition plain_table_name :: "world \<Rightarrow> string \<Rightarrow> bool" where
  "plain_table_name w name =
     (name \<noteq> [] \<and> list_all identifier_char name \<and> hd name \<notin> set ''0123456789'' \<and>
      ascii_lower name \<notin> set (reserved_words w) \<and> ascii_lower name \<noteq> ''filter_rsid'')"

text \<open>
  The rows of the join on a column of the table: every row of the table once for each row
  of \<open>filter_rsid\<close> that carries the same identifier; a NULL equals nothing. They are
  listed here in table order; \<open>exec_join\<close> hands them to the world's \<open>result_order\<close>.
\<close>

definition inner_join :: "table \<Rightarrow> string \<Rightarrow> string list \<Rightarrow> table" where
  "inner_join a col f =
     \<lparr>columns = columns a,
      rows = concat (map (\<lambda>r. map (\<lambda>x. r) (filter (\<lambda>x. cell_at a r col = Some x) f))
                         (rows a))\<rparr>"

definition ordered :: "world \<Rightarrow> table \<Rightarrow> table" where
  "ordered w t = t\<lparr>rows := result_order w (rows t)\<rparr>"

text \<open>
  Executing the query. DuckDB matches column names without regard to the case of ASCII
  letters (and admits no two columns of a table that differ in case only), so \<open>a.rsid\<close>
  means the column whose name is \<open>rsid\<close> in any spelling; a table without one makes the
  binder raise. The result has the columns of the table under their own names
  (\<open>SELECT a.*\<close>). The last case does not occur in a call of \<open>query_gwas\<close>: the name comes
  from \<open>SHOW TABLES\<close> and the temporary table has been created.
\<close>

definition exec_join :: "world \<Rightarrow> connection \<Rightarrow> string \<Rightarrow> (exn + table) \<times> connection" where
  "exec_join w con tbl =
     (let con' = con\<lparr>executed := executed con @ [SelectJoin tbl]\<rparr> in
      if \<not> plain_table_name w tbl then (unsafe_join w (join_text tbl), con')
      else
        (case (map_of (catalog con) tbl, filter_rsid con) of
           (Some a, Some f) \<Rightarrow>
             (case find (\<lambda>c. ascii_lower c = ''rsid'') (columns a) of
                None \<Rightarrow> (Inl (LibraryError (binder_error w (columns a))), con')
              | Some col \<Rightarrow>
                  (Inr (ordered w (inner_join a col f)), con'))
         | _ \<Rightarrow> (Inl (LibraryError (''Catalog Error: Table with name '' @ tbl @
                                      '' does not exist'')), con')))"

subsection \<open>\<open>query_gwas\<close>\<close>

text \<open>
  The choice of the table (lines 61 to 66): \<open>associations_clean\<close> if listed, else the first
  table listed, else the exception.
\<close>

definition resolve_table :: "string list \<Rightarrow> exn + string" where
  "resolve_table tables =
     (if ''associations_clean'' \<in> set tables then Inr ''associations_clean''
      else if tables \<noteq> [] then Inr (hd tables)
      else Inl (GWASQueryError ''No tables found in DuckDB file.''))"

text \<open>
  The DuckDB branch of the \<open>try\<close> block (lines 58 to 82). The connection is returned with
  the result, in the state the branch leaves it in; \<open>con.close()\<close> is the last statement of
  the branch and is reached only when nothing before it raised.
\<close>

definition load_duckdb :: "world \<Rightarrow> gwas_file \<Rightarrow> string list \<Rightarrow> (exn + table) \<times> connection option" where
  "load_duckdb w f rsid_list =
     (case duckdb_connect f of
        Inl e \<Rightarrow> (Inl e, None)
      | Inr db \<Rightarrow>
          (case show_tables (connect db) of
             (tables, con1) \<Rightarrow>
               (case resolve_table tables of
                  Inl e \<Rightarrow> (Inl e, Some con1)
                | Inr tbl \<Rightarrow>
                    (case insert_chunks w (create_temp_table con1) rsid_list 0 of
                       (Some e, con2) \<Rightarrow> (Inl e, Some con2)
                     | (None, con2) \<Rightarrow>
                         (case exec_join w con2 tbl of
                            (Inl e, con3) \<Rightarrow> (Inl e, Some con3)
                          | (Inr df, con3) \<Rightarrow> (Inr df, Some (close con3)))))))"

text \<open>The body of the \<open>try\<close> block (lines 53 to 84), before the \<open>except\<close> clause.\<close>

definition load_gwas :: "world \<Rightarrow> gwas_file \<Rightarrow> string \<Rightarrow> string list \<Rightarrow> (exn + table) \<times> connection option" where
  "load_gwas w f ext rsid_list =
     (if ext = ''.parquet'' then (read_parquet f, None)
      else if ext = ''.duckdb'' then load_duckdb w f rsid_list
      else (Inl (GWASQueryError (''Unsupported file type: '' @ ext)), None))"

text \<open>
  \<open>query_gwas(gwas_path, rsid_list)\<close>: the data frame returned or the exception raised,
  and the connection the call opened, if it opened one, as the call leaves it. The final
  \<open>reset_index(drop=True)\<close> renumbers the rows and changes neither them nor their order;
  a table of the model has no index.
\<close>

definition query_gwas :: "world \<Rightarrow> string \<Rightarrow> string list \<Rightarrow> (exn + table) \<times> connection option" where
  "query_gwas w gwas_path rsid_list =
     (case files w gwas_path of
        None \<Rightarrow> (Inl (GWASQueryError (''File does not exist: '' @ gwas_path)), None)
      | Some f \<Rightarrow>
          (let ext = lower w (snd (splitext gwas_path)) in
           if ext \<notin> {''.parquet'', ''.duckdb''}
           then (Inl (GWASQueryError (''Unsupported file type: '' @ ext @
                        ''. Only .parquet and .duckdb are supported.'')), None)
           else if rsid_list = [] then (Inr empty_frame, None)
           else
             (case load_gwas w f ext rsid_list of
                (Inl e, con) \<Rightarrow>
                  (Inl (GWASQueryError (''Failed to load GWAS file: '' @ str e)), con)
              | (Inr df, con) \<Rightarrow>
                  (let missing = missing_columns df in
                   if missing \<noteq> []
                   then (Inl (GWASQueryError (''Missing required columns: '' @
                                join_str '', '' missing)), con)
                   else
                     (let df' = (if ext = ''.parquet'' then isin_filter df rsid_list else df)
                      in (Inr (select_columns df' REQUIRED_COLUMNS), con))))))"

subsection \<open>Notions used in the statements\<close>

text \<open>The last component of a path: what follows its last slash.\<close>

definition last_component :: "string \<Rightarrow> string" where
  "last_component p = drop (nat (rfind (CHR ''/'') p + 1)) p"

text \<open>
  \<open>case_variant e t\<close>: \<open>e\<close> is the text \<open>t\<close> with any of its letters in upper case. The
  capital letters are listed here once more, apart from \<open>lower_char\<close>.
\<close>

definition case_variant :: "string \<Rightarrow> string \<Rightarrow> bool" where
  "case_variant e t =
     list_all2 (\<lambda>c d. c = d \<or>
                  (c, d) \<in> set (zip ''ABCDEFGHIJKLMNOPQRSTUVWXYZ'' ''abcdefghijklmnopqrstuvwxyz''))
       e t"

subsection \<open>Test data\<close>

text \<open>
  After \<open>make_gwas_df\<close> of \<open>tests/test_query_gwas.py\<close>: one row per identifier, every
  other cell a text naming its column.
\<close>

definition gwas_row :: "string \<Rightarrow> cell list" where
  "gwas_row r = Some r # map (\<lambda>col. Some (''val_'' @ col)) (tl REQUIRED_COLUMNS)"

definition make_gwas_df :: "string list \<Rightarrow> table" where
  "make_gwas_df rsids = \<lparr>columns = REQUIRED_COLUMNS, rows = map gwas_row rsids\<rparr>"

text \<open>\<open>make_gwas_df(['rs1']).drop(columns=['rsid'])\<close>, as in \<open>test_missing_rsid_column_raises\<close>.\<close>

definition no_rsid_df :: table where
  "no_rsid_df = \<lparr>columns = tl REQUIRED_COLUMNS, rows = [tl (gwas_row ''rs1'')]\<rparr>"

text \<open>The same frame without its last column, \<open>ci_95_text\<close>.\<close>

definition no_ci_df :: table where
  "no_ci_df = \<lparr>columns = butlast REQUIRED_COLUMNS, rows = [butlast (gwas_row ''rs1'')]\<rparr>"

text \<open>A frame without its first and its last column, and one whose first column is \<open>RSID\<close>.\<close>

definition no_ends_df :: table where
  "no_ends_df = \<lparr>columns = butlast (tl REQUIRED_COLUMNS),
                 rows = [butlast (tl (gwas_row ''rs1''))]\<rparr>"

definition upper_rsid_df :: table where
  "upper_rsid_df = \<lparr>columns = ''RSID'' # tl REQUIRED_COLUMNS, rows = [gwas_row ''rs1'']\<rparr>"

text \<open>A frame with its columns in reverse order and one column more.\<close>

definition wide_df :: table where
  "wide_df = \<lparr>columns = ''note'' # rev REQUIRED_COLUMNS,
              rows = [Some ''n1'' # rev (gwas_row ''rs1''), Some ''n2'' # rev (gwas_row ''rs2'')]\<rparr>"

definition parquet_file :: "table \<Rightarrow> gwas_file" where
  "parquet_file df =
     \<lparr>read_parquet = Inr df,
      duckdb_connect = Inl (LibraryError ''IO Error: not a valid DuckDB database file'')\<rparr>"

definition duckdb_file :: "database \<Rightarrow> gwas_file" where
  "duckdb_file db =
     \<lparr>read_parquet = Inl (LibraryError ''ArrowInvalid: Parquet magic bytes not found''),
      duckdb_connect = Inr db\<rparr>"

definition text_file :: gwas_file where
  "text_file =
     \<lparr>read_parquet = Inl (LibraryError ''ArrowInvalid: Parquet magic bytes not found''),
      duckdb_connect = Inl (LibraryError ''IO Error: not a valid DuckDB database file'')\<rparr>"

text \<open>
  The files of the examples. The texts of the library errors stand for those of the
  libraries, which depend on their versions; the reserved words are a few of DuckDB's.
\<close>

definition example_world :: world where
  "example_world =
     \<lparr>files = map_of
        [(''gwas.parquet'', parquet_file (make_gwas_df [''rs1'', ''rs2'', ''rs1''])),
         (''gwas.duckdb'', duckdb_file [(''associations_clean'', make_gwas_df [''rs1'', ''rs2'', ''rs1''])]),
         (''data/GWAS.PARQUET'', parquet_file (make_gwas_df [''rs1'', ''rs2'', ''rs1''])),
         (''data/Gwas.DuckDB'', duckdb_file [(''associations_clean'', make_gwas_df [''rs1'', ''rs2'', ''rs1''])]),
         (''no_rsid.parquet'', parquet_file no_rsid_df),
         (''no_rsid.duckdb'', duckdb_file [(''associations'', no_rsid_df)]),
         (''no_ci.duckdb'', duckdb_file [(''associations'', no_ci_df)]),
         (''wide.parquet'', parquet_file wide_df),
         (''wide.duckdb'', duckdb_file [(''other'', no_rsid_df), (''associations_clean'', wide_df)]),
         (''empty.duckdb'', duckdb_file []),
         (''gwas.txt'', text_file),
         (''.PARQUET'', parquet_file (make_gwas_df [''rs1'', ''rs2'', ''rs1''])),
         (''data/.DuckDB'', duckdb_file [(''associations_clean'', make_gwas_df [''rs1'', ''rs2'', ''rs1''])]),
         (''no_ends.parquet'', parquet_file no_ends_df),
         (''upper_rsid.duckdb'', duckdb_file [(''associations'', upper_rsid_df)])],
      unicode_lower = (\<lambda>s. s),
      unsafe_insert = (\<lambda>text. Inl (LibraryError ''Parser Error: syntax error'')),
      reserved_words = [''from'', ''group'', ''order'', ''select'', ''table'', ''where''],
      unsafe_join = (\<lambda>text. Inl (LibraryError ''Parser Error: syntax error'')),
      binder_error = (\<lambda>cols. ''Binder Error: no column rsid in table a''),
      result_order = (\<lambda>rs. rs)\<rparr>"

section \<open>Properties\<close>

subsection \<open>Frames\<close>

lemma length_REQUIRED_COLUMNS: "length REQUIRED_COLUMNS = 17"
  by (simp add: REQUIRED_COLUMNS_def)

lemma distinct_REQUIRED_COLUMNS: "distinct REQUIRED_COLUMNS"
  by (simp add: REQUIRED_COLUMNS_def)

lemma cell_at_nth:
  assumes "distinct (columns df)" "length r = length (columns df)" "i < length r"
  shows "cell_at df r (columns df ! i) = r ! i"
  using assms by (simp add: cell_at_def map_of_zip_nth)

lemma select_own_columns:
  assumes "distinct (columns df)" "length r = length (columns df)"
  shows "map (cell_at df r) (columns df) = r"
  using assms by (intro nth_equalityI) (simp_all add: cell_at_nth)

subsection \<open>The insert loop\<close>

lemma batches_bounds: "c \<in> set (batches ids i) \<Longrightarrow> c \<noteq> [] \<and> length c \<le> chunk_size"
proof (induction ids i rule: batches.induct)
  case (1 ids i)
  show ?case
  proof (cases "i < length ids")
    case True
    with "1.prems" have "c = take chunk_size (drop i ids) \<or> c \<in> set (batches ids (i + chunk_size))"
      by (subst (asm) batches.simps) simp
    then show ?thesis
    proof
      assume "c = take chunk_size (drop i ids)"
      with True show ?thesis by (simp add: chunk_size_def)
    next
      assume "c \<in> set (batches ids (i + chunk_size))"
      with True "1.IH" show ?thesis by simp
    qed
  next
    case False
    with "1.prems" show ?thesis by (subst (asm) batches.simps) simp
  qed
qed

lemma concat_batches: "concat (batches ids i) = drop i ids"
proof (induction ids i rule: batches.induct)
  case (1 ids i)
  show ?case
  proof (cases "i < length ids")
    case True
    have "concat (batches ids i) = take chunk_size (drop i ids) @ concat (batches ids (i + chunk_size))"
      using True by (subst batches.simps) simp
    also have "\<dots> = take chunk_size (drop i ids) @ drop (i + chunk_size) ids"
      using True "1.IH" by simp
    also have "\<dots> = drop i ids"
      by (metis add.commute append_take_drop_id drop_drop)
    finally show ?thesis .
  next
    case False
    then show ?thesis by (subst batches.simps) simp
  qed
qed

lemma batches_single: "ids \<noteq> [] \<Longrightarrow> length ids \<le> chunk_size \<Longrightarrow> batches ids 0 = [ids]"
  by (subst batches.simps, subst batches.simps) simp

lemma exec_insert_safe:
  assumes "list_all (\<lambda>r. CHR 0x27 \<notin> set r) chunk" "filter_rsid con = Some f"
  shows "exec_insert w con chunk =
           (None, con\<lparr>filter_rsid := Some (f @ chunk), executed := executed con @ [InsertValues chunk]\<rparr>)"
  using assms by (simp add: exec_insert_def Let_def)

lemma insert_chunks_safe:
  assumes "list_all (\<lambda>r. CHR 0x27 \<notin> set r) ids" "filter_rsid con = Some f"
  shows "insert_chunks w con ids i =
           (None, con\<lparr>filter_rsid := Some (f @ drop i ids),
                       executed := executed con @ map InsertValues (batches ids i)\<rparr>)"
  using assms
proof (induction w con ids i arbitrary: f rule: insert_chunks.induct)
  case (1 w con ids i)
  show ?case
  proof (cases "i < length ids")
    case True
    let ?chunk = "take chunk_size (drop i ids)"
    let ?con' = "con\<lparr>filter_rsid := Some (f @ ?chunk), executed := executed con @ [InsertValues ?chunk]\<rparr>"
    have safe: "list_all (\<lambda>r. CHR 0x27 \<notin> set r) ?chunk"
      using "1.prems"(1) by (auto simp: list_all_iff dest: in_set_takeD in_set_dropD)
    have step: "exec_insert w con ?chunk = (None, ?con')"
      using exec_insert_safe [OF safe "1.prems"(2)] .
    have "insert_chunks w con ids i = insert_chunks w ?con' ids (i + chunk_size)"
      using True step by (subst insert_chunks.simps) simp
    also have "\<dots> = (None, ?con'\<lparr>filter_rsid := Some ((f @ ?chunk) @ drop (i + chunk_size) ids),
                       executed := executed ?con' @ map InsertValues (batches ids (i + chunk_size))\<rparr>)"
      using "1.IH" [OF True step [symmetric] refl "1.prems"(1)] by simp
    also have "(f @ ?chunk) @ drop (i + chunk_size) ids = f @ drop i ids"
      by (metis add.commute append.assoc append_take_drop_id drop_drop)
    finally show ?thesis
      using True by (subst batches.simps) simp
  next
    case False
    then show ?thesis
      using "1.prems"(2) by (subst insert_chunks.simps, subst batches.simps) simp
  qed
qed

subsection \<open>The DuckDB branch on identifiers without a quote character\<close>

lemma ordered_same_columns [simp]: "columns (ordered w t) = columns t"
  by (simp add: ordered_def)

lemma load_duckdb_safe:
  assumes "duckdb_connect f = Inr db"
    and "resolve_table (map fst db) = Inr tbl"
    and "plain_table_name w tbl"
    and "map_of db tbl = Some a"
    and "find (\<lambda>c. ascii_lower c = ''rsid'') (columns a) = Some col"
    and "list_all (\<lambda>r. CHR 0x27 \<notin> set r) ids"
  shows "load_duckdb w f ids =
           (Inr (ordered w (inner_join a col ids)),
            Some \<lparr>catalog = db, filter_rsid = None, is_closed = True,
                   executed = ShowTables # CreateTempTable # map InsertValues (batches ids 0) @
                              [SelectJoin tbl]\<rparr>)"
proof -
  let ?con1 = "\<lparr>catalog = db, filter_rsid = Some [], is_closed = False,
                executed = [ShowTables, CreateTempTable]\<rparr>"
  have ins: "insert_chunks w ?con1 ids 0 =
               (None, \<lparr>catalog = db, filter_rsid = Some ids, is_closed = False,
                       executed = ShowTables # CreateTempTable # map InsertValues (batches ids 0)\<rparr>)"
    using insert_chunks_safe [OF assms(6), of ?con1 "[]" w 0] by simp
  show ?thesis
    using assms(1-5)
    by (simp add: load_duckdb_def ins show_tables_def connect_def create_temp_table_def
        exec_join_def close_def)
qed

lemma load_duckdb_no_rsid:
  assumes "duckdb_connect f = Inr db"
    and "resolve_table (map fst db) = Inr tbl"
    and "plain_table_name w tbl"
    and "map_of db tbl = Some a"
    and "find (\<lambda>c. ascii_lower c = ''rsid'') (columns a) = None"
    and "list_all (\<lambda>r. CHR 0x27 \<notin> set r) ids"
  shows "load_duckdb w f ids =
           (Inl (LibraryError (binder_error w (columns a))),
            Some \<lparr>catalog = db, filter_rsid = Some ids, is_closed = False,
                   executed = ShowTables # CreateTempTable # map InsertValues (batches ids 0) @
                              [SelectJoin tbl]\<rparr>)"
proof -
  let ?con1 = "\<lparr>catalog = db, filter_rsid = Some [], is_closed = False,
                executed = [ShowTables, CreateTempTable]\<rparr>"
  have ins: "insert_chunks w ?con1 ids 0 =
               (None, \<lparr>catalog = db, filter_rsid = Some ids, is_closed = False,
                       executed = ShowTables # CreateTempTable # map InsertValues (batches ids 0)\<rparr>)"
    using insert_chunks_safe [OF assms(6), of ?con1 "[]" w 0] by simp
  show ?thesis
    using assms(1-5)
    by (simp add: load_duckdb_def ins show_tables_def connect_def create_temp_table_def
        exec_join_def)
qed

subsection \<open>The example files\<close>

lemma ext_examples:
  "lower example_world (snd (splitext ''gwas.parquet'')) = ''.parquet''"
  "lower example_world (snd (splitext ''gwas.duckdb'')) = ''.duckdb''"
  "lower example_world (snd (splitext ''data/GWAS.PARQUET'')) = ''.parquet''"
  "lower example_world (snd (splitext ''data/Gwas.DuckDB'')) = ''.duckdb''"
  "lower example_world (snd (splitext ''no_rsid.parquet'')) = ''.parquet''"
  "lower example_world (snd (splitext ''no_rsid.duckdb'')) = ''.duckdb''"
  "lower example_world (snd (splitext ''no_ci.duckdb'')) = ''.duckdb''"
  "lower example_world (snd (splitext ''wide.parquet'')) = ''.parquet''"
  "lower example_world (snd (splitext ''wide.duckdb'')) = ''.duckdb''"
  "lower example_world (snd (splitext ''empty.duckdb'')) = ''.duckdb''"
  "lower example_world (snd (splitext ''gwas.txt'')) = ''.txt''"
  "lower example_world (snd (splitext ''missing.txt'')) = ''.txt''"
  "lower example_world (snd (splitext ''.PARQUET'')) = []"
  "lower example_world (snd (splitext ''data/.DuckDB'')) = []"
  "lower example_world (snd (splitext ''no_ends.parquet'')) = ''.parquet''"
  "lower example_world (snd (splitext ''upper_rsid.duckdb'')) = ''.duckdb''"
  by (simp_all add: splitext_def lower_def is_ascii_def ascii_lower_def lower_char_def)

lemma files_examples:
  "files example_world ''gwas.parquet'' = Some (parquet_file (make_gwas_df [''rs1'', ''rs2'', ''rs1'']))"
  "files example_world ''gwas.duckdb'' =
     Some (duckdb_file [(''associations_clean'', make_gwas_df [''rs1'', ''rs2'', ''rs1''])])"
  "files example_world ''data/GWAS.PARQUET'' = Some (parquet_file (make_gwas_df [''rs1'', ''rs2'', ''rs1'']))"
  "files example_world ''data/Gwas.DuckDB'' =
     Some (duckdb_file [(''associations_clean'', make_gwas_df [''rs1'', ''rs2'', ''rs1''])])"
  "files example_world ''no_rsid.parquet'' = Some (parquet_file no_rsid_df)"
  "files example_world ''no_rsid.duckdb'' = Some (duckdb_file [(''associations'', no_rsid_df)])"
  "files example_world ''no_ci.duckdb'' = Some (duckdb_file [(''associations'', no_ci_df)])"
  "files example_world ''wide.parquet'' = Some (parquet_file wide_df)"
  "files example_world ''wide.duckdb'' =
     Some (duckdb_file [(''other'', no_rsid_df), (''associations_clean'', wide_df)])"
  "files example_world ''empty.duckdb'' = Some (duckdb_file [])"
  "files example_world ''gwas.txt'' = Some text_file"
  "files example_world ''missing.txt'' = None"
  "files example_world ''.PARQUET'' = Some (parquet_file (make_gwas_df [''rs1'', ''rs2'', ''rs1'']))"
  "files example_world ''data/.DuckDB'' =
     Some (duckdb_file [(''associations_clean'', make_gwas_df [''rs1'', ''rs2'', ''rs1''])])"
  "files example_world ''no_ends.parquet'' = Some (parquet_file no_ends_df)"
  "files example_world ''upper_rsid.duckdb'' = Some (duckdb_file [(''associations'', upper_rsid_df)])"
  by (simp_all add: example_world_def)

lemma example_engine:
  "plain_table_name example_world ''associations_clean''"
  "plain_table_name example_world ''associations''"
  "ordered example_world t = t"
  "binder_error example_world cols = ''Binder Error: no column rsid in table a''"
  by (simp_all add: plain_table_name_def identifier_char_def ascii_lower_def lower_char_def
      ordered_def example_world_def)

lemma find_rsid_examples:
  "columns a = REQUIRED_COLUMNS \<Longrightarrow> find (\<lambda>c. ascii_lower c = ''rsid'') (columns a) = Some ''rsid''"
  "find (\<lambda>c. ascii_lower c = ''rsid'') (columns no_ci_df) = Some ''rsid''"
  "find (\<lambda>c. ascii_lower c = ''rsid'') (columns upper_rsid_df) = Some ''RSID''"
  "find (\<lambda>c. ascii_lower c = ''rsid'') (columns no_rsid_df) = None"
  "find (\<lambda>c. ascii_lower c = ''rsid'') (columns wide_df) = Some ''rsid''"
  by (simp_all add: REQUIRED_COLUMNS_def no_ci_df_def upper_rsid_df_def no_rsid_df_def wide_df_def
      ascii_lower_def lower_char_def)

lemma missing_no_rsid: "missing_columns no_rsid_df = [''rsid'']"
  by (simp add: missing_columns_def no_rsid_df_def REQUIRED_COLUMNS_def)

lemma example_duckdb_load:
  assumes "resolve_table (map fst db) = Inr tbl"
    and "plain_table_name example_world tbl"
    and "map_of db tbl = Some a"
    and "find (\<lambda>c. ascii_lower c = ''rsid'') (columns a) = Some col"
    and "list_all (\<lambda>r. CHR 0x27 \<notin> set r) ids"
  shows "load_duckdb example_world (duckdb_file db) ids =
           (Inr (inner_join a col ids),
            Some \<lparr>catalog = db, filter_rsid = None, is_closed = True,
                   executed = ShowTables # CreateTempTable # map InsertValues (batches ids 0) @
                              [SelectJoin tbl]\<rparr>)"
  using load_duckdb_safe [of "duckdb_file db" db tbl example_world a col ids] assms
  by (simp add: duckdb_file_def example_engine)

subsection \<open>The checks before loading\<close>

text \<open>
  Claim C6. For an existing file with a recognised extension, \<open>query_gwas\<close> called with the
  empty identifier list returns a table with no rows and exactly the 17 required columns,
  on either backend, whatever the file holds: the file is not read, so a table that lacks
  required columns does not matter, and no connection is opened.
\<close>

theorem empty_identifier_list_fast_path:
  assumes "files w p = Some f"
    and "lower w (snd (splitext p)) \<in> {''.parquet'', ''.duckdb''}"
  shows "query_gwas w p [] = (Inr \<lparr>columns = REQUIRED_COLUMNS, rows = []\<rparr>, None) \<and>
         length REQUIRED_COLUMNS = 17"
  using assms by (auto simp: query_gwas_def Let_def empty_frame_def length_REQUIRED_COLUMNS)

theorem empty_identifier_list_fast_path_witness:
  "files example_world ''no_rsid.parquet'' = Some (parquet_file no_rsid_df) \<and>
   files example_world ''no_rsid.duckdb'' = Some (duckdb_file [(''associations'', no_rsid_df)]) \<and>
   missing_columns no_rsid_df = [''rsid''] \<and>
   query_gwas example_world ''no_rsid.parquet'' [] =
     (Inr \<lparr>columns = REQUIRED_COLUMNS, rows = []\<rparr>, None) \<and>
   query_gwas example_world ''no_rsid.duckdb'' [] =
     (Inr \<lparr>columns = REQUIRED_COLUMNS, rows = []\<rparr>, None)"
  using empty_identifier_list_fast_path [OF files_examples(5)]
    empty_identifier_list_fast_path [OF files_examples(6)]
  by (simp add: ext_examples files_examples missing_no_rsid)

text \<open>
  Claim C7, as stated: a path whose extension is not recognised fails with the
  unsupported-format error whether or not the file exists. It does not: existence is
  checked first, and \<open>missing.txt\<close>, which does not exist, fails with the not-found error.
\<close>

theorem unsupported_extension_counterexample:
  "lower example_world (snd (splitext ''missing.txt'')) \<notin> {''.parquet'', ''.duckdb''} \<and>
   query_gwas example_world ''missing.txt'' [''rs1''] =
     (Inl (GWASQueryError ''File does not exist: missing.txt''), None)"
  by (simp add: query_gwas_def Let_def ext_examples files_examples)

text \<open>
  Claim C7, amended. A path that does not exist fails with the not-found error, whatever
  its extension. A path that exists and whose lower-cased extension is neither
  \<open>.parquet\<close> nor \<open>.duckdb\<close> fails with the unsupported-format error naming that
  extension, whatever the file holds and whatever the identifier list.
\<close>

theorem unsupported_extension_of_existing_file:
  "(files w p = None \<longrightarrow>
      query_gwas w p ids = (Inl (GWASQueryError (''File does not exist: '' @ p)), None)) \<and>
   (files w p \<noteq> None \<and> lower w (snd (splitext p)) \<notin> {''.parquet'', ''.duckdb''} \<longrightarrow>
      query_gwas w p ids =
        (Inl (GWASQueryError (''Unsupported file type: '' @ lower w (snd (splitext p)) @
                ''. Only .parquet and .duckdb are supported.'')), None))"
  by (auto simp: query_gwas_def Let_def)

theorem unsupported_extension_of_existing_file_witness:
  "files example_world ''missing.txt'' = None \<and>
   query_gwas example_world ''missing.txt'' [''rs1''] =
     (Inl (GWASQueryError ''File does not exist: missing.txt''), None) \<and>
   files example_world ''gwas.txt'' \<noteq> None \<and>
   lower example_world (snd (splitext ''gwas.txt'')) \<notin> {''.parquet'', ''.duckdb''} \<and>
   query_gwas example_world ''gwas.txt'' [''rs1''] =
     (Inl (GWASQueryError ''Unsupported file type: .txt. Only .parquet and .duckdb are supported.''), None)"
  using unsupported_extension_of_existing_file [of example_world "''missing.txt''" "[''rs1'']"]
    unsupported_extension_of_existing_file [of example_world "''gwas.txt''" "[''rs1'']"]
  by (simp add: ext_examples files_examples)

subsection \<open>Frames built by the test helper\<close>

lemma length_gwas_row: "length (gwas_row r) = 17"
  by (simp add: gwas_row_def REQUIRED_COLUMNS_def)

lemma cell_at_gwas_row: "columns df = REQUIRED_COLUMNS \<Longrightarrow> cell_at df (gwas_row r) ''rsid'' = Some r"
  by (simp add: cell_at_def gwas_row_def REQUIRED_COLUMNS_def)

lemma missing_columns_none: "set REQUIRED_COLUMNS \<subseteq> set (columns df) \<Longrightarrow> missing_columns df = []"
  by (auto simp: missing_columns_def filter_empty_conv)

lemma select_required_columns:
  assumes "columns df = REQUIRED_COLUMNS" "\<forall>r \<in> set (rows df). length r = 17"
  shows "select_columns df REQUIRED_COLUMNS = df"
proof -
  have "map (\<lambda>r. map (cell_at df r) REQUIRED_COLUMNS) (rows df) = rows df"
  proof (rule map_idI)
    fix r assume "r \<in> set (rows df)"
    with assms have "length r = length (columns df)"
      by (simp add: length_REQUIRED_COLUMNS)
    with assms(1) show "map (cell_at df r) REQUIRED_COLUMNS = r"
      using select_own_columns [of df r] distinct_REQUIRED_COLUMNS by simp
  qed
  with assms(1) show ?thesis
    by (simp add: select_columns_def)
qed


lemma isin_filter_make_gwas_df:
  "isin_filter (make_gwas_df rs) ids = make_gwas_df (filter (\<lambda>r. r \<in> set ids) rs)"
  by (simp add: isin_filter_def make_gwas_df_def filter_map o_def cell_at_gwas_row)

lemma join_rows_gwas:
  "columns a = REQUIRED_COLUMNS \<Longrightarrow>
   map (\<lambda>x. gwas_row r) (filter (\<lambda>x. cell_at a (gwas_row r) ''rsid'' = Some x) ids) =
   map gwas_row (filter (\<lambda>x. r = x) ids)"
  by (induction ids) (simp_all add: cell_at_gwas_row)

lemma join_all_rows_gwas:
  "columns a = REQUIRED_COLUMNS \<Longrightarrow>
   concat (map (\<lambda>r. map (\<lambda>x. r) (filter (\<lambda>x. cell_at a r ''rsid'' = Some x) ids))
               (map gwas_row rs)) =
   map gwas_row (concat (map (\<lambda>r. filter (\<lambda>x. r = x) ids) rs))"
  by (induction rs) (simp_all add: join_rows_gwas)

lemma inner_join_make_gwas_df:
  "inner_join (make_gwas_df rs) ''rsid'' ids =
     make_gwas_df (concat (map (\<lambda>r. filter (\<lambda>x. r = x) ids) rs))"
  using join_all_rows_gwas [of "make_gwas_df rs" ids rs]
  by (simp add: inner_join_def make_gwas_df_def)

lemma select_make_gwas_df: "select_columns (make_gwas_df rs) REQUIRED_COLUMNS = make_gwas_df rs"
  by (rule select_required_columns) (auto simp: make_gwas_df_def length_gwas_row)

lemma missing_make_gwas_df: "missing_columns (make_gwas_df rs) = []"
  by (rule missing_columns_none) (simp add: make_gwas_df_def)


lemma select_wide_row:
  "map (cell_at wide_df (Some n # rev (gwas_row r))) REQUIRED_COLUMNS = gwas_row r"
proof -
  let ?row = "Some n # rev (gwas_row r)"
  have d: "distinct (columns wide_df)"
    using distinct_REQUIRED_COLUMNS by (simp add: wide_df_def REQUIRED_COLUMNS_def)
  have l: "length ?row = length (columns wide_df)"
    by (simp add: wide_df_def length_gwas_row length_REQUIRED_COLUMNS)
  have "map (cell_at wide_df ?row) (columns wide_df) = ?row"
    using select_own_columns [OF d l] .
  then have "map (cell_at wide_df ?row) (rev REQUIRED_COLUMNS) = rev (gwas_row r)"
    by (simp add: wide_df_def)
  then have "rev (map (cell_at wide_df ?row) REQUIRED_COLUMNS) = rev (gwas_row r)"
    by (simp only: rev_map)
  then show ?thesis
    by (simp only: rev_is_rev_conv)
qed

lemma rows_wide_df:
  "rows wide_df = [Some ''n1'' # rev (gwas_row ''rs1''), Some ''n2'' # rev (gwas_row ''rs2'')]"
  by (simp add: wide_df_def)

lemma select_wide_df: "select_columns wide_df REQUIRED_COLUMNS = make_gwas_df [''rs1'', ''rs2'']"
  by (simp add: select_columns_def make_gwas_df_def rows_wide_df select_wide_row)


lemma cell_at_wide_rsid: "cell_at wide_df (Some n # rev (gwas_row r)) ''rsid'' = Some r"
  using select_wide_row [of n r] by (simp add: REQUIRED_COLUMNS_def gwas_row_def)

lemma query_gwas_parquet:
  assumes "files w p = Some f" "lower w (snd (splitext p)) = ''.parquet''" "ids \<noteq> []"
  shows "query_gwas w p ids =
           (case read_parquet f of
              Inl e \<Rightarrow> (Inl (GWASQueryError (''Failed to load GWAS file: '' @ str e)), None)
            | Inr df \<Rightarrow>
                if missing_columns df \<noteq> []
                then (Inl (GWASQueryError (''Missing required columns: '' @
                             join_str '', '' (missing_columns df))), None)
                else (Inr (select_columns (isin_filter df ids) REQUIRED_COLUMNS), None))"
  using assms by (simp add: query_gwas_def load_gwas_def Let_def split: sum.splits)

lemma query_gwas_duckdb:
  assumes "files w p = Some f" "lower w (snd (splitext p)) = ''.duckdb''" "ids \<noteq> []"
  shows "query_gwas w p ids =
           (case load_duckdb w f ids of
              (Inl e, con) \<Rightarrow> (Inl (GWASQueryError (''Failed to load GWAS file: '' @ str e)), con)
            | (Inr df, con) \<Rightarrow>
                if missing_columns df \<noteq> []
                then (Inl (GWASQueryError (''Missing required columns: '' @
                             join_str '', '' (missing_columns df))), con)
                else (Inr (select_columns df REQUIRED_COLUMNS), con))"
  using assms by (simp add: query_gwas_def load_gwas_def Let_def split: sum.splits prod.splits)

subsection \<open>The schema of the result\<close>

text \<open>
  Claim C8. Whenever \<open>query_gwas\<close> returns a table, the column list of that table is exactly
  the 17 required columns in their fixed order, and every row has 17 cells, whatever the
  order of the columns in the source and whatever further columns it has.
\<close>

theorem output_schema:
  assumes "query_gwas w p ids = (Inr df, con)"
  shows "columns df = REQUIRED_COLUMNS \<and> (\<forall>r \<in> set (rows df). length r = 17)"
proof -
  from assms have "df = empty_frame \<or> (\<exists>df'. df = select_columns df' REQUIRED_COLUMNS)"
    by (auto simp: query_gwas_def Let_def split: option.splits if_splits prod.splits sum.splits)
  then show ?thesis
    by (auto simp: empty_frame_def select_columns_def length_REQUIRED_COLUMNS)
qed


lemma cell_at_rows_update [simp]: "cell_at (df\<lparr>rows := rs\<rparr>) = cell_at df"
  by (rule ext)+ (simp add: cell_at_def)

lemma missing_wide_df: "missing_columns wide_df = []"
  by (rule missing_columns_none) (auto simp: wide_df_def)

lemma small_batch: "ids \<noteq> [] \<Longrightarrow> length ids \<le> 50000 \<Longrightarrow> batches ids 0 = [ids]"
  by (rule batches_single) (simp_all add: chunk_size_def)

lemma wide_parquet_eval:
  "query_gwas example_world ''wide.parquet'' [''rs2'', ''rs9''] =
     (Inr (make_gwas_df [''rs2'']), None)"
proof -
  have "isin_filter wide_df [''rs2'', ''rs9''] =
          wide_df\<lparr>rows := [Some ''n2'' # rev (gwas_row ''rs2'')]\<rparr>"
    by (simp add: isin_filter_def rows_wide_df cell_at_wide_rsid)
  then have "select_columns (isin_filter wide_df [''rs2'', ''rs9'']) REQUIRED_COLUMNS =
          make_gwas_df [''rs2'']"
    by (simp add: select_columns_def make_gwas_df_def select_wide_row)
  then show ?thesis
    by (simp add: query_gwas_parquet [OF files_examples(8) ext_examples(8)]
        parquet_file_def missing_wide_df)
qed

lemma wide_duckdb_eval:
  "query_gwas example_world ''wide.duckdb'' [''rs2''] =
     (Inr (make_gwas_df [''rs2'']),
      Some \<lparr>catalog = [(''other'', no_rsid_df), (''associations_clean'', wide_df)],
             filter_rsid = None, is_closed = True,
             executed = [ShowTables, CreateTempTable, InsertValues [''rs2''],
                         SelectJoin ''associations_clean'']\<rparr>)"
proof -
  let ?db = "[(''other'', no_rsid_df), (''associations_clean'', wide_df)]"
  have r: "resolve_table (map fst ?db) = Inr ''associations_clean''"
    by (simp add: resolve_table_def)
  have t: "map_of ?db ''associations_clean'' = Some wide_df"
    by simp
  have s: "list_all (\<lambda>r. CHR 0x27 \<notin> set r) [''rs2'']"
    by simp
  have l: "load_duckdb example_world (duckdb_file ?db) [''rs2''] =
     (Inr (inner_join wide_df ''rsid'' [''rs2'']),
      Some \<lparr>catalog = ?db, filter_rsid = None, is_closed = True,
             executed = [ShowTables, CreateTempTable, InsertValues [''rs2''],
                         SelectJoin ''associations_clean'']\<rparr>)"
    using example_duckdb_load [OF r example_engine(1) t find_rsid_examples(5) s]
    by (simp add: small_batch)
  have j: "inner_join wide_df ''rsid'' [''rs2''] = wide_df\<lparr>rows := [Some ''n2'' # rev (gwas_row ''rs2'')]\<rparr>"
    by (simp add: inner_join_def rows_wide_df cell_at_wide_rsid)
  have m: "missing_columns (inner_join wide_df ''rsid'' [''rs2'']) = []"
    by (rule missing_columns_none) (auto simp: inner_join_def wide_df_def)
  have "select_columns (inner_join wide_df ''rsid'' [''rs2'']) REQUIRED_COLUMNS = make_gwas_df [''rs2'']"
    by (simp add: j select_columns_def make_gwas_df_def select_wide_row)
  then show ?thesis
    by (simp add: query_gwas_duckdb [OF files_examples(9) ext_examples(9)] l m)
qed

theorem output_schema_witness:
  "query_gwas example_world ''wide.parquet'' [''rs2'', ''rs9''] =
     (Inr (make_gwas_df [''rs2'']), None) \<and>
   columns wide_df = ''note'' # rev REQUIRED_COLUMNS \<and>
   columns (make_gwas_df [''rs2'']) = REQUIRED_COLUMNS \<and>
   map length (rows (make_gwas_df [''rs2''])) = [17]"
  using output_schema [OF wide_parquet_eval] wide_parquet_eval
  by (simp add: wide_df_def make_gwas_df_def)

subsection \<open>Runs on the example files\<close>

lemma safe_examples:
  "list_all (\<lambda>r. CHR 0x27 \<notin> set r) [''rs1'']"
  "list_all (\<lambda>r. CHR 0x27 \<notin> set r) [''rs2'', ''rs2'']"
  "list_all (\<lambda>r. CHR 0x27 \<notin> set r) [''rs1'', ''rs1'']"
  "list_all (\<lambda>r. CHR 0x27 \<notin> set r) (replicate n ''rs1'')"
  by (simp_all add: list_all_iff)

lemma missing_no_ci: "missing_columns no_ci_df = [''ci_95_text'']"
  by (simp add: missing_columns_def no_ci_df_def REQUIRED_COLUMNS_def)

lemma missing_no_ends: "missing_columns no_ends_df = [''rsid'', ''ci_95_text'']"
  by (simp add: missing_columns_def no_ends_df_def REQUIRED_COLUMNS_def)

lemma missing_upper_rsid: "missing_columns upper_rsid_df = [''rsid'']"
  by (simp add: missing_columns_def upper_rsid_df_def REQUIRED_COLUMNS_def)

lemma missing_columns_inner_join: "missing_columns (inner_join a col f) = missing_columns a"
  by (simp add: missing_columns_def inner_join_def)

lemma missing_columns_ordered: "missing_columns (ordered w t) = missing_columns t"
  by (simp add: missing_columns_def)

lemma no_rsid_duckdb_eval:
  "query_gwas example_world ''no_rsid.duckdb'' [''rs1''] =
     (Inl (GWASQueryError
             (''Failed to load GWAS file: '' @ binder_error example_world (columns no_rsid_df))),
      Some \<lparr>catalog = [(''associations'', no_rsid_df)], filter_rsid = Some [''rs1''],
             is_closed = False,
             executed = [ShowTables, CreateTempTable, InsertValues [''rs1''],
                         SelectJoin ''associations'']\<rparr>)"
proof -
  let ?db = "[(''associations'', no_rsid_df)]"
  have r: "resolve_table (map fst ?db) = Inr ''associations''"
    by (simp add: resolve_table_def)
  have t: "map_of ?db ''associations'' = Some no_rsid_df"
    by simp
  have "load_duckdb example_world (duckdb_file ?db) [''rs1''] =
     (Inl (LibraryError (binder_error example_world (columns no_rsid_df))),
      Some \<lparr>catalog = ?db, filter_rsid = Some [''rs1''], is_closed = False,
             executed = [ShowTables, CreateTempTable, InsertValues [''rs1''],
                         SelectJoin ''associations'']\<rparr>)"
    using load_duckdb_no_rsid [of "duckdb_file ?db" ?db "''associations''" example_world
        no_rsid_df "[''rs1'']", OF _ r example_engine(2) t find_rsid_examples(4) safe_examples(1)]
    by (simp add: duckdb_file_def small_batch)
  then show ?thesis
    by (simp add: query_gwas_duckdb [OF files_examples(6) ext_examples(6)])
qed

lemma no_ci_duckdb_eval:
  "query_gwas example_world ''no_ci.duckdb'' [''rs1''] =
     (Inl (GWASQueryError ''Missing required columns: ci_95_text''),
      Some \<lparr>catalog = [(''associations'', no_ci_df)], filter_rsid = None,
             is_closed = True,
             executed = [ShowTables, CreateTempTable, InsertValues [''rs1''],
                         SelectJoin ''associations'']\<rparr>)"
proof -
  let ?db = "[(''associations'', no_ci_df)]"
  have r: "resolve_table (map fst ?db) = Inr ''associations''"
    by (simp add: resolve_table_def)
  have t: "map_of ?db ''associations'' = Some no_ci_df"
    by simp
  have "load_duckdb example_world (duckdb_file ?db) [''rs1''] =
     (Inr (inner_join no_ci_df ''rsid'' [''rs1'']),
      Some \<lparr>catalog = ?db, filter_rsid = None, is_closed = True,
             executed = [ShowTables, CreateTempTable, InsertValues [''rs1''],
                         SelectJoin ''associations'']\<rparr>)"
    using example_duckdb_load [OF r example_engine(2) t find_rsid_examples(2) safe_examples(1)]
    by (simp add: small_batch)
  then show ?thesis
    by (simp add: query_gwas_duckdb [OF files_examples(7) ext_examples(7)]
        missing_columns_inner_join missing_no_ci)
qed

lemma no_rsid_parquet_eval:
  "query_gwas example_world ''no_rsid.parquet'' [''rs1''] =
     (Inl (GWASQueryError ''Missing required columns: rsid''), None)"
  by (simp add: query_gwas_parquet [OF files_examples(5) ext_examples(5)]
      parquet_file_def missing_no_rsid)

lemma empty_duckdb_eval:
  "query_gwas example_world ''empty.duckdb'' [''rs1''] =
     (Inl (GWASQueryError ''Failed to load GWAS file: No tables found in DuckDB file.''),
      Some \<lparr>catalog = [], filter_rsid = None, is_closed = False, executed = [ShowTables]\<rparr>)"
  by (simp add: query_gwas_duckdb [OF files_examples(10) ext_examples(10)]
      load_duckdb_def duckdb_file_def show_tables_def connect_def resolve_table_def)

subsection \<open>Validation of the columns\<close>

text \<open>
  Claim C3, as stated: whenever the loaded table lacks a required column and the identifier
  list is not empty, \<open>query_gwas\<close> fails with the missing-columns error, before any
  filtering, and a table without \<open>rsid\<close> gives that error naming \<open>rsid\<close> on both
  backends. On the DuckDB backend neither holds. A table with \<open>rsid\<close> but without
  \<open>ci_95_text\<close> gives the missing-columns error only after the inserts and the join have
  been executed and the connection closed. A table without any column \<open>rsid\<close> does not
  give the missing-columns error at all: the join raises first.
\<close>

theorem missing_columns_counterexample:
  "missing_columns no_ci_df = [''ci_95_text''] \<and>
   query_gwas example_world ''no_ci.duckdb'' [''rs1''] =
     (Inl (GWASQueryError ''Missing required columns: ci_95_text''),
      Some \<lparr>catalog = [(''associations'', no_ci_df)], filter_rsid = None, is_closed = True,
             executed = [ShowTables, CreateTempTable, InsertValues [''rs1''],
                         SelectJoin ''associations'']\<rparr>) \<and>
   missing_columns no_rsid_df = [''rsid''] \<and>
   fst (query_gwas example_world ''no_rsid.duckdb'' [''rs1'']) \<noteq>
     Inl (GWASQueryError ''Missing required columns: rsid'')"
  by (simp add: missing_no_rsid missing_no_ci no_rsid_duckdb_eval no_ci_duckdb_eval)

text \<open>
  Claim C3, amended. For an existing file and a non-empty identifier list: on the Parquet
  backend, a loaded table that lacks required columns makes \<open>query_gwas\<close> fail with the
  missing-columns error, and no filtering takes place. On the DuckDB backend the filtering
  join is part of the load step and comes first: when the name of the chosen table denotes
  it unquoted, the table has a column that \<open>a.rsid\<close> can mean (\<open>rsid\<close> in any case) but
  lacks required columns under their exact names, and no identifier holds a quote
  character, \<open>query_gwas\<close> executes the inserts and the join, closes the connection, and
  then fails with the missing-columns error. On both backends the error names exactly the
  required columns that the table does not have under their exact names, in schema order.
\<close>

theorem missing_columns_reported:
  assumes "files w p = Some f" and "ids \<noteq> []"
  shows "(lower w (snd (splitext p)) = ''.parquet'' \<and> read_parquet f = Inr df \<and>
          missing_columns df \<noteq> [] \<longrightarrow>
            query_gwas w p ids =
              (Inl (GWASQueryError (''Missing required columns: '' @
                      join_str '', '' (missing_columns df))), None)) \<and>
         (lower w (snd (splitext p)) = ''.duckdb'' \<and> duckdb_connect f = Inr db \<and>
          resolve_table (map fst db) = Inr tbl \<and> plain_table_name w tbl \<and>
          map_of db tbl = Some df \<and>
          find (\<lambda>c. ascii_lower c = ''rsid'') (columns df) \<noteq> None \<and>
          list_all (\<lambda>r. CHR 0x27 \<notin> set r) ids \<and>
          missing_columns df \<noteq> [] \<longrightarrow>
            query_gwas w p ids =
              (Inl (GWASQueryError (''Missing required columns: '' @
                      join_str '', '' (missing_columns df))),
               Some \<lparr>catalog = db, filter_rsid = None, is_closed = True,
                      executed = ShowTables # CreateTempTable #
                                 map InsertValues (batches ids 0) @ [SelectJoin tbl]\<rparr>)) \<and>
         subseq (missing_columns df) REQUIRED_COLUMNS \<and>
         set (missing_columns df) = set REQUIRED_COLUMNS - set (columns df)"
proof (intro conjI impI)
  assume "lower w (snd (splitext p)) = ''.parquet'' \<and> read_parquet f = Inr df \<and>
          missing_columns df \<noteq> []"
  then show "query_gwas w p ids =
      (Inl (GWASQueryError (''Missing required columns: '' @
              join_str '', '' (missing_columns df))), None)"
    using query_gwas_parquet [OF assms(1) _ assms(2)] by simp
next
  assume a: "lower w (snd (splitext p)) = ''.duckdb'' \<and> duckdb_connect f = Inr db \<and>
          resolve_table (map fst db) = Inr tbl \<and> plain_table_name w tbl \<and>
          map_of db tbl = Some df \<and>
          find (\<lambda>c. ascii_lower c = ''rsid'') (columns df) \<noteq> None \<and>
          list_all (\<lambda>r. CHR 0x27 \<notin> set r) ids \<and>
          missing_columns df \<noteq> []"
  then obtain col where col: "find (\<lambda>c. ascii_lower c = ''rsid'') (columns df) = Some col"
    by blast
  with a have "load_duckdb w f ids =
           (Inr (ordered w (inner_join df col ids)),
            Some \<lparr>catalog = db, filter_rsid = None, is_closed = True,
                   executed = ShowTables # CreateTempTable # map InsertValues (batches ids 0) @
                              [SelectJoin tbl]\<rparr>)"
    using load_duckdb_safe [of f db tbl w df col ids] by simp
  with a show "query_gwas w p ids =
      (Inl (GWASQueryError (''Missing required columns: '' @
              join_str '', '' (missing_columns df))),
       Some \<lparr>catalog = db, filter_rsid = None, is_closed = True,
              executed = ShowTables # CreateTempTable #
                         map InsertValues (batches ids 0) @ [SelectJoin tbl]\<rparr>)"
    using query_gwas_duckdb [OF assms(1) _ assms(2)]
    by (simp add: missing_columns_inner_join missing_columns_ordered)
next
  show "subseq (missing_columns df) REQUIRED_COLUMNS"
    by (simp add: missing_columns_def)
next
  show "set (missing_columns df) = set REQUIRED_COLUMNS - set (columns df)"
    by (auto simp: missing_columns_def)
qed

theorem missing_columns_reported_witness:
  "files example_world ''no_ends.parquet'' = Some (parquet_file no_ends_df) \<and>
   read_parquet (parquet_file no_ends_df) = Inr no_ends_df \<and>
   missing_columns no_ends_df = [''rsid'', ''ci_95_text''] \<and>
   query_gwas example_world ''no_ends.parquet'' [''rs1''] =
     (Inl (GWASQueryError ''Missing required columns: rsid, ci_95_text''), None) \<and>
   files example_world ''upper_rsid.duckdb'' =
     Some (duckdb_file [(''associations'', upper_rsid_df)]) \<and>
   columns upper_rsid_df = ''RSID'' # tl REQUIRED_COLUMNS \<and>
   missing_columns upper_rsid_df = [''rsid''] \<and>
   query_gwas example_world ''upper_rsid.duckdb'' [''rs1''] =
     (Inl (GWASQueryError ''Missing required columns: rsid''),
      Some \<lparr>catalog = [(''associations'', upper_rsid_df)], filter_rsid = None, is_closed = True,
             executed = [ShowTables, CreateTempTable, InsertValues [''rs1''],
                         SelectJoin ''associations'']\<rparr>)"
proof -
  have ne: "[''rs1''] \<noteq> ([] :: string list)" by simp
  have p: "lower example_world (snd (splitext ''no_ends.parquet'')) = ''.parquet'' \<and>
           read_parquet (parquet_file no_ends_df) = Inr no_ends_df \<and>
           missing_columns no_ends_df \<noteq> []"
    by (simp add: ext_examples parquet_file_def missing_no_ends)
  have d: "lower example_world (snd (splitext ''upper_rsid.duckdb'')) = ''.duckdb'' \<and>
           duckdb_connect (duckdb_file [(''associations'', upper_rsid_df)]) =
             Inr [(''associations'', upper_rsid_df)] \<and>
           resolve_table (map fst [(''associations'', upper_rsid_df)]) = Inr ''associations'' \<and>
           plain_table_name example_world ''associations'' \<and>
           map_of [(''associations'', upper_rsid_df)] ''associations'' = Some upper_rsid_df \<and>
           find (\<lambda>c. ascii_lower c = ''rsid'') (columns upper_rsid_df) \<noteq> None \<and>
           list_all (\<lambda>r. CHR 0x27 \<notin> set r) [''rs1''] \<and>
           missing_columns upper_rsid_df \<noteq> []"
    by (simp add: ext_examples duckdb_file_def resolve_table_def missing_upper_rsid
        example_engine find_rsid_examples)
  have b: "batches [''rs1''] 0 = [[''rs1'']]"
    by (simp add: small_batch)
  have c: "columns upper_rsid_df = ''RSID'' # tl REQUIRED_COLUMNS"
    by (simp add: upper_rsid_df_def)
  from missing_columns_reported [OF files_examples(15) ne, of no_ends_df] p
  have 1: "query_gwas example_world ''no_ends.parquet'' [''rs1''] =
     (Inl (GWASQueryError (''Missing required columns: '' @
             join_str '', '' (missing_columns no_ends_df))), None)"
    by blast
  from missing_columns_reported [OF files_examples(16) ne, of upper_rsid_df
      "[(''associations'', upper_rsid_df)]" "''associations''"] d
  have 2: "query_gwas example_world ''upper_rsid.duckdb'' [''rs1''] =
     (Inl (GWASQueryError (''Missing required columns: '' @
             join_str '', '' (missing_columns upper_rsid_df))),
      Some \<lparr>catalog = [(''associations'', upper_rsid_df)], filter_rsid = None, is_closed = True,
             executed = ShowTables # CreateTempTable #
                        map InsertValues (batches [''rs1''] 0) @ [SelectJoin ''associations'']\<rparr>)"
    by blast
  show ?thesis
    using 1 2 b c
    by (simp add: files_examples parquet_file_def missing_no_ends missing_upper_rsid)
qed

subsection \<open>The two backends on one table\<close>

lemma gwas_duckdb_load:
  assumes "list_all (\<lambda>r. CHR 0x27 \<notin> set r) ids" "ids \<noteq> []"
  shows "query_gwas example_world ''gwas.duckdb'' ids =
     (Inr (make_gwas_df (concat (map (\<lambda>r. filter (\<lambda>x. r = x) ids) [''rs1'', ''rs2'', ''rs1'']))),
      Some \<lparr>catalog = [(''associations_clean'', make_gwas_df [''rs1'', ''rs2'', ''rs1''])],
             filter_rsid = None, is_closed = True,
             executed = ShowTables # CreateTempTable # map InsertValues (batches ids 0) @
                        [SelectJoin ''associations_clean'']\<rparr>)"
proof -
  let ?T = "make_gwas_df [''rs1'', ''rs2'', ''rs1'']"
  let ?db = "[(''associations_clean'', ?T)]"
  have r: "resolve_table (map fst ?db) = Inr ''associations_clean''"
    by (simp add: resolve_table_def)
  have t: "map_of ?db ''associations_clean'' = Some ?T"
    by simp
  have c: "find (\<lambda>c. ascii_lower c = ''rsid'') (columns ?T) = Some ''rsid''"
    by (rule find_rsid_examples(1)) (simp add: make_gwas_df_def)
  note l = example_duckdb_load [OF r example_engine(1) t c assms(1)]
  show ?thesis
    by (simp add: query_gwas_duckdb [OF files_examples(2) ext_examples(2) assms(2)] l
        inner_join_make_gwas_df missing_make_gwas_df select_make_gwas_df)
qed

lemma gwas_parquet_load:
  assumes "ids \<noteq> []"
  shows "query_gwas example_world ''gwas.parquet'' ids =
     (Inr (make_gwas_df (filter (\<lambda>r. r \<in> set ids) [''rs1'', ''rs2'', ''rs1''])), None)"
  by (simp add: query_gwas_parquet [OF files_examples(1) ext_examples(1) assms]
      parquet_file_def isin_filter_make_gwas_df missing_make_gwas_df select_make_gwas_df)

lemma rsid_column_make_gwas_df: "rsid_column (make_gwas_df rs) = map Some rs"
  by (simp add: rsid_column_def make_gwas_df_def cell_at_gwas_row)

subsection \<open>How often a row is returned\<close>

lemma cell_at_selected:
  "col \<in> set cols \<Longrightarrow>
   cell_at \<lparr>columns = cols, rows = rs\<rparr> (map (cell_at df r) cols) col = cell_at df r col"
  by (simp add: cell_at_def map_of_zip_map)

lemma rsid_column_select:
  "rsid_column (select_columns df REQUIRED_COLUMNS) = rsid_column df"
proof -
  have "''rsid'' \<in> set REQUIRED_COLUMNS"
    by (simp add: REQUIRED_COLUMNS_def)
  then show ?thesis
    by (simp add: rsid_column_def select_columns_def cell_at_selected o_def)
qed

lemma rsid_column_isin_filter:
  "rsid_column (isin_filter df ids) =
     filter (\<lambda>c. case c of Some x \<Rightarrow> x \<in> set ids | None \<Rightarrow> False) (rsid_column df)"
  by (simp add: rsid_column_def isin_filter_def filter_map o_def)

lemma rsid_column_inner_join:
  "rsid_column (inner_join a ''rsid'' f) =
     concat (map (\<lambda>c. case c of Some x \<Rightarrow> replicate (count_list f x) c | None \<Rightarrow> [])
                 (rsid_column a))"
proof -
  have rep: "map (\<lambda>x. c) (filter (\<lambda>x. c = Some x) f) =
             (case c of Some x \<Rightarrow> replicate (count_list f x) c | None \<Rightarrow> [])" for c :: cell
  proof (cases c)
    case None
    then show ?thesis by simp
  next
    case (Some y)
    have "map (\<lambda>x. Some y) (filter (\<lambda>x. y = x) f) = replicate (count_list f y) (Some y)"
      by (induction f) auto
    with Some show ?thesis by simp
  qed
  have "map (\<lambda>r. cell_at (inner_join a ''rsid'' f) r ''rsid'')
          (concat (map (\<lambda>r. map (\<lambda>x. r) (filter (\<lambda>x. cell_at a r ''rsid'' = Some x) f)) rs)) =
        concat (map (\<lambda>c. case c of Some x \<Rightarrow> replicate (count_list f x) c | None \<Rightarrow> [])
                 (map (\<lambda>r. cell_at a r ''rsid'') rs))" for rs
  proof (induction rs)
    case Nil
    then show ?case by simp
  next
    case (Cons r rs)
    have same: "cell_at (inner_join a ''rsid'' f) = cell_at a"
      by (rule ext)+ (simp add: cell_at_def inner_join_def)
    have "map (\<lambda>r'. cell_at a r' ''rsid'')
            (map (\<lambda>x. r) (filter (\<lambda>x. cell_at a r ''rsid'' = Some x) f)) =
          map (\<lambda>x. cell_at a r ''rsid'') (filter (\<lambda>x. cell_at a r ''rsid'' = Some x) f)"
      by simp
    with Cons same show ?case
      by (simp add: rep)
  qed
  then show ?thesis
    by (simp add: rsid_column_def inner_join_def)
qed

lemma count_list_filter: "count_list (filter P xs) y = (if P y then count_list xs y else 0)"
  by (induction xs) auto

lemma count_list_concat_replicate:
  "count_list (concat (map (\<lambda>c. case c of Some x \<Rightarrow> replicate (n x) c | None \<Rightarrow> []) cs)) (Some y) =
     count_list cs (Some y) * n y"
proof (induction cs)
  case Nil
  then show ?case by simp
next
  case (Cons c cs)
  have r: "count_list (replicate k (Some z)) (Some y) = (if z = y then k else 0)" for k z
    by (induction k) auto
  from Cons show ?case
    by (cases c) (auto simp: r)
qed

text \<open>
  What each backend returns for an identifier: the Parquet backend keeps the rows of the
  table that carry it; the DuckDB backend returns each of them once for every occurrence
  of the identifier in the list.
\<close>

lemma parquet_multiplicity:
  "count_list (rsid_column (select_columns (isin_filter df ids) REQUIRED_COLUMNS)) (Some x) =
     (if x \<in> set ids then count_list (rsid_column df) (Some x) else 0)"
  by (simp add: rsid_column_select rsid_column_isin_filter count_list_filter)

lemma duckdb_multiplicity:
  "count_list (rsid_column (select_columns (inner_join a ''rsid'' ids) REQUIRED_COLUMNS)) (Some x) =
     count_list (rsid_column a) (Some x) * count_list ids x"
  by (simp add: rsid_column_select rsid_column_inner_join count_list_concat_replicate)

lemma backends_agree_on_distinct_identifiers:
  assumes "distinct ids"
  shows "count_list (rsid_column (select_columns (inner_join df ''rsid'' ids) REQUIRED_COLUMNS)) (Some x) =
         count_list (rsid_column (select_columns (isin_filter df ids) REQUIRED_COLUMNS)) (Some x)"
proof -
  have "count_list ids x = (if x \<in> set ids then 1 else 0)"
    using assms by (induction ids) auto
  then show ?thesis
    by (simp add: parquet_multiplicity duckdb_multiplicity)
qed

subsection \<open>Duplicate identifiers\<close>

text \<open>
  Claim C1 says that duplicate identifiers in the list do not produce duplicate output
  rows, on both backends. On the DuckDB backend they do: the identifiers are inserted into
  \<open>filter_rsid\<close> as they come, and the inner join returns a row once for each equal
  identifier. The source table below holds \<open>rs2\<close> once; asked for \<open>rs2\<close> twice, the
  DuckDB backend returns its row twice, the Parquet backend once.
\<close>

theorem duplicate_identifiers_duplicate_rows:
  "rsid_column (make_gwas_df [''rs1'', ''rs2'', ''rs1'']) = [Some ''rs1'', Some ''rs2'', Some ''rs1''] \<and>
   fst (query_gwas example_world ''gwas.duckdb'' [''rs2'', ''rs2'']) =
     Inr (make_gwas_df [''rs2'', ''rs2'']) \<and>
   rsid_column (make_gwas_df [''rs2'', ''rs2'']) = [Some ''rs2'', Some ''rs2''] \<and>
   fst (query_gwas example_world ''gwas.parquet'' [''rs2'', ''rs2'']) =
     Inr (make_gwas_df [''rs2''])"
  by (simp add: gwas_duckdb_load safe_examples gwas_parquet_load rsid_column_make_gwas_df)

text \<open>
  Claim C2 says that the two backends select the same rows from the same table for every
  identifier list. For the table with rows \<open>rs1\<close>, \<open>rs2\<close>, \<open>rs1\<close> and the list
  \<open>rs1\<close>, \<open>rs1\<close> the Parquet backend returns two rows and the DuckDB backend four.
\<close>

theorem backends_disagree:
  "read_parquet (parquet_file (make_gwas_df [''rs1'', ''rs2'', ''rs1''])) =
     Inr (make_gwas_df [''rs1'', ''rs2'', ''rs1'']) \<and>
   duckdb_connect (duckdb_file [(''associations_clean'', make_gwas_df [''rs1'', ''rs2'', ''rs1''])]) =
     Inr [(''associations_clean'', make_gwas_df [''rs1'', ''rs2'', ''rs1''])] \<and>
   fst (query_gwas example_world ''gwas.parquet'' [''rs1'', ''rs1'']) =
     Inr (make_gwas_df [''rs1'', ''rs1'']) \<and>
   fst (query_gwas example_world ''gwas.duckdb'' [''rs1'', ''rs1'']) =
     Inr (make_gwas_df [''rs1'', ''rs1'', ''rs1'', ''rs1'']) \<and>
   length (rows (make_gwas_df [''rs1'', ''rs1''])) = 2 \<and>
   length (rows (make_gwas_df [''rs1'', ''rs1'', ''rs1'', ''rs1''])) = 4"
  by (simp add: gwas_duckdb_load safe_examples gwas_parquet_load parquet_file_def duckdb_file_def)
     (simp add: make_gwas_df_def)

subsection \<open>Exceptions raised inside the \<open>try\<close> block\<close>

text \<open>
  Claim C5 says that a database without tables fails with an error of the no-tables kind.
  The exception of line 66 is raised inside the \<open>try\<close> block, and the \<open>except\<close> clause
  of lines 85 and 86 catches it like any other: the caller receives the load failure, with
  the no-tables message as its cause.
\<close>

theorem no_tables_error_is_wrapped:
  "duckdb_connect (duckdb_file []) = Inr [] \<and>
   resolve_table [] = Inl (GWASQueryError ''No tables found in DuckDB file.'') \<and>
   fst (query_gwas example_world ''empty.duckdb'' [''rs1'']) =
     Inl (GWASQueryError ''Failed to load GWAS file: No tables found in DuckDB file.'')"
  by (simp add: empty_duckdb_eval duckdb_file_def resolve_table_def)

text \<open>
  Claim C9 says that the connection and the temporary table are released before
  \<open>query_gwas\<close> returns or raises. \<open>con.close()\<close> is the last statement of the DuckDB
  branch, and nothing closes the connection when a statement before it raises: after the
  failed join on a table without \<open>rsid\<close> the connection is open and \<open>filter_rsid\<close> still
  holds the identifiers; after the no-tables exception the connection is open too.
\<close>

theorem connection_left_open:
  "snd (query_gwas example_world ''no_rsid.duckdb'' [''rs1'']) =
     Some \<lparr>catalog = [(''associations'', no_rsid_df)], filter_rsid = Some [''rs1''],
            is_closed = False,
            executed = [ShowTables, CreateTempTable, InsertValues [''rs1''],
                        SelectJoin ''associations'']\<rparr> \<and>
   snd (query_gwas example_world ''empty.duckdb'' [''rs1'']) =
     Some \<lparr>catalog = [], filter_rsid = None, is_closed = False, executed = [ShowTables]\<rparr>"
  by (simp add: no_rsid_duckdb_eval empty_duckdb_eval)

subsection \<open>The statements a call executes\<close>

lemma exec_insert_effect:
  assumes "exec_insert w con chunk = (r, con')"
  shows "executed con' = executed con @ [InsertValues chunk] \<and>
         is_closed con' = is_closed con \<and> catalog con' = catalog con"
  using assms
  by (auto simp: exec_insert_def Let_def split: sum.splits option.splits)

lemma insert_chunks_log:
  assumes "insert_chunks w con ids i = (r, con')"
  shows "\<exists>n. n \<le> length (batches ids i) \<and>
             executed con' = executed con @ map InsertValues (take n (batches ids i)) \<and>
             (r = None \<longrightarrow> n = length (batches ids i)) \<and>
             is_closed con' = is_closed con \<and> catalog con' = catalog con"
  using assms
proof (induction w con ids i arbitrary: r con' rule: insert_chunks.induct)
  case (1 w con ids i)
  show ?case
  proof (cases "i < length ids")
    case False
    with "1.prems" have "r = None" "con' = con"
      by (subst (asm) insert_chunks.simps, simp)+
    moreover from False have "batches ids i = []"
      by (subst batches.simps) simp
    ultimately show ?thesis by simp
  next
    case True
    let ?chunk = "take chunk_size (drop i ids)"
    obtain r1 con1 where step: "exec_insert w con ?chunk = (r1, con1)"
      by (cases "exec_insert w con ?chunk") auto
    note eff = exec_insert_effect [OF step]
    have b: "batches ids i = ?chunk # batches ids (i + chunk_size)"
      using True by (subst batches.simps) simp
    show ?thesis
    proof (cases r1)
      case (Some e)
      with "1.prems" True step have "r = Some e" "con' = con1"
        by (subst (asm) insert_chunks.simps, simp)+
      with eff b show ?thesis
        by (intro exI [of _ 1]) simp
    next
      case None
      with "1.prems" True step have rest: "insert_chunks w con1 ids (i + chunk_size) = (r, con')"
        by (subst (asm) insert_chunks.simps) simp
      from "1.IH" [OF True step [symmetric] None rest]
      obtain n where n: "n \<le> length (batches ids (i + chunk_size))"
        "executed con' = executed con1 @ map InsertValues (take n (batches ids (i + chunk_size)))"
        "r = None \<longrightarrow> n = length (batches ids (i + chunk_size))"
        "is_closed con' = is_closed con1" "catalog con' = catalog con1"
        by blast
      with eff b show ?thesis
        by (intro exI [of _ "Suc n"]) simp
    qed
  qed
qed

lemma exec_join_effect:
  assumes "exec_join w con tbl = (r, con')"
  shows "executed con' = executed con @ [SelectJoin tbl] \<and> is_closed con' = is_closed con"
  using assms
  by (auto simp: exec_join_def Let_def split: option.splits if_splits)

lemma load_duckdb_log:
  assumes "load_duckdb w f ids = (r, Some con)"
  shows "\<exists>tbl rest.
           executed con @ rest =
             ShowTables # CreateTempTable # map InsertValues (batches ids 0) @ [SelectJoin tbl] \<and>
           ((\<exists>df. r = Inr df) \<longrightarrow> rest = []) \<and>
           is_closed con = (\<exists>df. r = Inr df)"
proof -
  from assms obtain db where db: "duckdb_connect f = Inr db"
    by (auto simp: load_duckdb_def split: sum.splits)
  let ?con1 = "\<lparr>catalog = db, filter_rsid = None, is_closed = False, executed = [ShowTables]\<rparr>"
  have st: "show_tables (connect db) = (map fst db, ?con1)"
    by (simp add: show_tables_def connect_def)
  show ?thesis
  proof (cases "resolve_table (map fst db)")
    case (Inl e)
    with assms db st have "r = Inl e" "con = ?con1"
      by (simp_all add: load_duckdb_def)
    then show ?thesis by simp
  next
    case (Inr tbl)
    let ?con2 = "create_temp_table ?con1"
    obtain r2 con2 where ins: "insert_chunks w ?con2 ids 0 = (r2, con2)"
      by (cases "insert_chunks w ?con2 ids 0") auto
    from insert_chunks_log [OF ins]
    obtain n where n: "n \<le> length (batches ids 0)"
      "executed con2 = [ShowTables, CreateTempTable] @ map InsertValues (take n (batches ids 0))"
      "r2 = None \<longrightarrow> n = length (batches ids 0)" "is_closed con2 = False"
      by (auto simp: create_temp_table_def)
    show ?thesis
    proof (cases r2)
      case (Some e)
      with assms db st Inr ins have "r = Inl e" "con = con2"
        by (simp_all add: load_duckdb_def)
      moreover have "executed con2 @ (map InsertValues (drop n (batches ids 0)) @ [SelectJoin tbl]) =
          ShowTables # CreateTempTable # map InsertValues (batches ids 0) @ [SelectJoin tbl]"
        using n(2) by (simp flip: map_append)
      ultimately show ?thesis
        using n(4) by blast
    next
      case None
      with n have full: "executed con2 = [ShowTables, CreateTempTable] @ map InsertValues (batches ids 0)"
        by simp
      obtain r3 con3 where j: "exec_join w con2 tbl = (r3, con3)"
        by (cases "exec_join w con2 tbl") auto
      note eff = exec_join_effect [OF j]
      show ?thesis
      proof (cases r3)
        case (Inl e)
        with assms db st Inr ins None j have "r = Inl e" "con = con3"
          by (simp_all add: load_duckdb_def)
        with eff full n(4) show ?thesis by simp
      next
        case (Inr df)
        with assms db st \<open>resolve_table (map fst db) = Inr tbl\<close> ins None j
        have "r = Inr df" "con = close con3"
          by (simp_all add: load_duckdb_def)
        with eff full show ?thesis by (simp add: close_def)
      qed
    qed
  qed
qed

subsection \<open>The extension of a path\<close>

lemma rfind_ge: "- 1 \<le> rfind c xs"
  by (induction xs) (auto simp: Let_def)

lemma rfind_lt: "rfind c xs < int (length xs)"
  by (induction xs) (auto simp: Let_def)

lemma rfind_notin: "c \<notin> set xs \<Longrightarrow> rfind c xs = - 1"
  by (induction xs) (auto simp: Let_def)

lemma rfind_in: "c \<in> set xs \<Longrightarrow> 0 \<le> rfind c xs"
  by (induction xs) (auto simp: Let_def)

lemma rfind_append:
  "rfind c (xs @ ys) = (if c \<in> set ys then int (length xs) + rfind c ys else rfind c xs)"
proof (induction xs)
  case Nil
  then show ?case by (simp add: rfind_notin)
next
  case (Cons x xs)
  then show ?case
    using rfind_in [of c ys] by (auto simp: Let_def)
qed

text \<open>A case variant of a lower-case ASCII text is ASCII, and \<open>str.lower\<close> gives the text.\<close>

lemma upper_ascii:
  "\<forall>c \<in> set ''ABCDEFGHIJKLMNOPQRSTUVWXYZ''. \<not> digit7 c"
  by simp

lemma variant_char:
  assumes "c = d \<or>
           (c, d) \<in> set (zip ''ABCDEFGHIJKLMNOPQRSTUVWXYZ'' ''abcdefghijklmnopqrstuvwxyz'')"
    and "lower_char d = d" and "\<not> digit7 d"
  shows "lower_char c = d \<and> \<not> digit7 c"
  using assms(1)
proof
  assume "c = d"
  with assms(2,3) show ?thesis by simp
next
  assume p: "(c, d) \<in> set (zip ''ABCDEFGHIJKLMNOPQRSTUVWXYZ'' ''abcdefghijklmnopqrstuvwxyz'')"
  have "distinct (map fst (zip ''ABCDEFGHIJKLMNOPQRSTUVWXYZ'' ''abcdefghijklmnopqrstuvwxyz''))"
    by simp
  then have "map_of (zip ''ABCDEFGHIJKLMNOPQRSTUVWXYZ'' ''abcdefghijklmnopqrstuvwxyz'') c = Some d"
    using p by (rule map_of_is_SomeI)
  then have "lower_char c = d"
    by (simp only: lower_char_def option.case)
  moreover from p have "c \<in> set ''ABCDEFGHIJKLMNOPQRSTUVWXYZ''"
    by (rule set_zip_leftD)
  with upper_ascii have "\<not> digit7 c"
    by blast
  ultimately show ?thesis by simp
qed

lemma case_variant_lower:
  assumes "case_variant e t" and "\<forall>d \<in> set t. lower_char d = d \<and> \<not> digit7 d"
  shows "ascii_lower e = t \<and> is_ascii e"
  using assms unfolding case_variant_def
proof (induction rule: list_all2_induct)
  case Nil
  then show ?case by (simp add: ascii_lower_def is_ascii_def)
next
  case (Cons c e d t)
  from variant_char [OF Cons.hyps(1)] Cons.prems have "lower_char c = d \<and> \<not> digit7 c"
    by simp
  with Cons show ?case
    by (simp add: ascii_lower_def is_ascii_def)
qed

lemma recognized_fixed:
  "\<forall>d \<in> set ''.parquet''. lower_char d = d \<and> \<not> digit7 d"
  "\<forall>d \<in> set ''.duckdb''. lower_char d = d \<and> \<not> digit7 d"
  by (simp_all add: lower_char_def)

lemma case_variant_recognized:
  "case_variant e ''.parquet'' \<Longrightarrow> ascii_lower e = ''.parquet'' \<and> lower w e = ''.parquet''"
  "case_variant e ''.duckdb'' \<Longrightarrow> ascii_lower e = ''.duckdb'' \<and> lower w e = ''.duckdb''"
  using case_variant_lower [OF _ recognized_fixed(1)] case_variant_lower [OF _ recognized_fixed(2)]
  by (simp_all add: lower_def)

lemma lower_char_dot: "lower_char c = CHR ''.'' \<Longrightarrow> c = CHR ''.''"
  by (auto simp: lower_char_def split: if_splits)

lemma lower_char_fixed: "lower_char (CHR ''.'') = CHR ''.''" "lower_char (CHR ''/'') = CHR ''/''"
  by (simp_all add: lower_char_def)

lemma case_variant_shape:
  assumes "ascii_lower e = ''.parquet'' \<or> ascii_lower e = ''.duckdb''"
  shows "\<exists>rest. e = CHR ''.'' # rest \<and> CHR ''.'' \<notin> set rest \<and> CHR ''/'' \<notin> set e"
proof -
  from assms obtain c rest where e: "e = c # rest"
    by (cases e) (auto simp: ascii_lower_def)
  from assms e have "lower_char c = CHR ''.''"
    by (auto simp: ascii_lower_def)
  then have c: "c = CHR ''.''"
    by (rule lower_char_dot)
  from assms e have "ascii_lower rest = ''parquet'' \<or> ascii_lower rest = ''duckdb''"
    by (auto simp: ascii_lower_def)
  then have "CHR ''.'' \<notin> set (ascii_lower rest) \<and> CHR ''/'' \<notin> set (ascii_lower rest)"
    by auto
  then have "CHR ''.'' \<notin> set rest \<and> CHR ''/'' \<notin> set rest"
    using lower_char_fixed by (force simp: ascii_lower_def)
  with e c show ?thesis by simp
qed

text \<open>
  \<open>splitext\<close> on a path that ends in a case variant of one of the two extensions: the
  variant is the extension if the last component has a character other than a dot before
  it, and there is no extension otherwise.
\<close>

lemma splitext_case_variant:
  assumes "ascii_lower e = ''.parquet'' \<or> ascii_lower e = ''.duckdb''"
  shows "splitext (stem @ e) =
           (if list_ex (\<lambda>c. c \<noteq> CHR ''.'') (last_component stem) then (stem, e)
            else (stem @ e, []))"
proof -
  from case_variant_shape [OF assms]
  obtain rest where e: "e = CHR ''.'' # rest" "CHR ''.'' \<notin> set rest" "CHR ''/'' \<notin> set e"
    by blast
  have dot: "rfind (CHR ''.'') (stem @ e) = int (length stem)"
    using e by (simp add: rfind_append rfind_notin Let_def)
  have sep: "rfind (CHR ''/'') (stem @ e) = rfind (CHR ''/'') stem"
    using e(3) by (simp add: rfind_append)
  let ?s = "rfind (CHR ''/'') stem"
  have s: "- 1 \<le> ?s" "?s < int (length stem)"
    by (rule rfind_ge, rule rfind_lt)
  then have n: "nat (?s + 1) \<le> length stem" by simp
  have "take (nat (int (length stem) - (?s + 1))) (drop (nat (?s + 1)) (stem @ e)) =
        last_component stem"
    using s n by (simp add: nat_diff_distrib' last_component_def)
  with s show ?thesis
    by (simp add: splitext_def dot sep)
qed

lemma lower_empty: "lower w [] = []"
  by (simp add: lower_def is_ascii_def ascii_lower_def)

lemma query_gwas_unsupported:
  assumes "files w p = Some f" and "lower w (snd (splitext p)) \<notin> {''.parquet'', ''.duckdb''}"
  shows "query_gwas w p ids =
           (Inl (GWASQueryError (''Unsupported file type: '' @ lower w (snd (splitext p)) @
                   ''. Only .parquet and .duckdb are supported.'')), None)"
  using assms by (simp add: query_gwas_def Let_def)

lemma query_gwas_empty_list:
  assumes "files w p = Some f" and "lower w (snd (splitext p)) \<in> {''.parquet'', ''.duckdb''}"
  shows "query_gwas w p [] = (Inr empty_frame, None)"
  using assms by (auto simp: query_gwas_def Let_def)

text \<open>
  Claim C10, as stated: every path that ends in an upper- or mixed-case variant of one of
  the two extensions is accepted. The existing files \<open>.PARQUET\<close> and \<open>data/.DuckDB\<close> are
  not: for \<open>os.path.splitext\<close> a last component that starts with its only dot is a hidden
  file without extension, and \<open>query_gwas\<close> rejects them as unsupported.
\<close>

theorem case_variant_counterexample:
  "case_variant ''.PARQUET'' ''.parquet'' \<and>
   files example_world ''.PARQUET'' =
     Some (parquet_file (make_gwas_df [''rs1'', ''rs2'', ''rs1''])) \<and>
   query_gwas example_world ''.PARQUET'' [''rs1''] =
     (Inl (GWASQueryError ''Unsupported file type: . Only .parquet and .duckdb are supported.''),
      None) \<and>
   case_variant ''.DuckDB'' ''.duckdb'' \<and>
   files example_world ''data/.DuckDB'' =
     Some (duckdb_file [(''associations_clean'', make_gwas_df [''rs1'', ''rs2'', ''rs1''])]) \<and>
   query_gwas example_world ''data/.DuckDB'' [''rs1''] =
     (Inl (GWASQueryError ''Unsupported file type: . Only .parquet and .duckdb are supported.''),
      None)"
  using query_gwas_unsupported [OF files_examples(13), of "[''rs1'']"]
    query_gwas_unsupported [OF files_examples(14), of "[''rs1'']"]
  by (simp add: ext_examples files_examples case_variant_def)

text \<open>
  Claim C10, amended. The extension is lower-cased before it is compared: an existing path
  that ends in an upper- or mixed-case variant of \<open>.parquet\<close> or of \<open>.duckdb\<close>, after a last
  component that has a character other than a dot, is not rejected as unsupported but
  handled by the Parquet backend or by the DuckDB backend (and with the empty identifier
  list gives the empty frame). When the last component has nothing but dots before the
  variant, the path has no extension and is rejected as unsupported.
\<close>

theorem case_variant_dispatched:
  assumes "files w (stem @ e) = Some f"
  shows "(case_variant e ''.parquet'' \<and> list_ex (\<lambda>c. c \<noteq> CHR ''.'') (last_component stem) \<longrightarrow>
            query_gwas w (stem @ e) ids =
              (if ids = [] then (Inr empty_frame, None)
               else case read_parquet f of
                 Inl x \<Rightarrow> (Inl (GWASQueryError (''Failed to load GWAS file: '' @ str x)), None)
               | Inr df \<Rightarrow>
                   if missing_columns df \<noteq> []
                   then (Inl (GWASQueryError (''Missing required columns: '' @
                                join_str '', '' (missing_columns df))), None)
                   else (Inr (select_columns (isin_filter df ids) REQUIRED_COLUMNS), None))) \<and>
         (case_variant e ''.duckdb'' \<and> list_ex (\<lambda>c. c \<noteq> CHR ''.'') (last_component stem) \<longrightarrow>
            query_gwas w (stem @ e) ids =
              (if ids = [] then (Inr empty_frame, None)
               else case load_duckdb w f ids of
                 (Inl x, con) \<Rightarrow>
                   (Inl (GWASQueryError (''Failed to load GWAS file: '' @ str x)), con)
               | (Inr df, con) \<Rightarrow>
                   if missing_columns df \<noteq> []
                   then (Inl (GWASQueryError (''Missing required columns: '' @
                                join_str '', '' (missing_columns df))), con)
                   else (Inr (select_columns df REQUIRED_COLUMNS), con))) \<and>
         ((case_variant e ''.parquet'' \<or> case_variant e ''.duckdb'') \<and>
          \<not> list_ex (\<lambda>c. c \<noteq> CHR ''.'') (last_component stem) \<longrightarrow>
            query_gwas w (stem @ e) ids =
              (Inl (GWASQueryError
                      ''Unsupported file type: . Only .parquet and .duckdb are supported.''),
               None))"
proof (intro conjI impI)
  assume a: "case_variant e ''.parquet'' \<and>
             list_ex (\<lambda>c. c \<noteq> CHR ''.'') (last_component stem)"
  then have l: "ascii_lower e = ''.parquet''" "lower w e = ''.parquet''"
    using case_variant_recognized(1) [of e w] by simp_all
  with a have x: "lower w (snd (splitext (stem @ e))) = ''.parquet''"
    by (simp add: splitext_case_variant)
  show "query_gwas w (stem @ e) ids =
          (if ids = [] then (Inr empty_frame, None)
           else case read_parquet f of
             Inl x \<Rightarrow> (Inl (GWASQueryError (''Failed to load GWAS file: '' @ str x)), None)
           | Inr df \<Rightarrow>
               if missing_columns df \<noteq> []
               then (Inl (GWASQueryError (''Missing required columns: '' @
                            join_str '', '' (missing_columns df))), None)
               else (Inr (select_columns (isin_filter df ids) REQUIRED_COLUMNS), None))"
  proof (cases "ids = []")
    case True
    then show ?thesis
      using query_gwas_empty_list [OF assms] x by simp
  next
    case False
    then show ?thesis
      using query_gwas_parquet [OF assms x False] by simp
  qed
next
  assume a: "case_variant e ''.duckdb'' \<and>
             list_ex (\<lambda>c. c \<noteq> CHR ''.'') (last_component stem)"
  then have l: "ascii_lower e = ''.duckdb''" "lower w e = ''.duckdb''"
    using case_variant_recognized(2) [of e w] by simp_all
  with a have x: "lower w (snd (splitext (stem @ e))) = ''.duckdb''"
    by (simp add: splitext_case_variant)
  show "query_gwas w (stem @ e) ids =
          (if ids = [] then (Inr empty_frame, None)
           else case load_duckdb w f ids of
             (Inl x, con) \<Rightarrow>
               (Inl (GWASQueryError (''Failed to load GWAS file: '' @ str x)), con)
           | (Inr df, con) \<Rightarrow>
               if missing_columns df \<noteq> []
               then (Inl (GWASQueryError (''Missing required columns: '' @
                            join_str '', '' (missing_columns df))), con)
               else (Inr (select_columns df REQUIRED_COLUMNS), con))"
  proof (cases "ids = []")
    case True
    then show ?thesis
      using query_gwas_empty_list [OF assms] x by simp
  next
    case False
    then show ?thesis
      using query_gwas_duckdb [OF assms x False] by simp
  qed
next
  assume a: "(case_variant e ''.parquet'' \<or> case_variant e ''.duckdb'') \<and>
             \<not> list_ex (\<lambda>c. c \<noteq> CHR ''.'') (last_component stem)"
  then have "ascii_lower e = ''.parquet'' \<or> ascii_lower e = ''.duckdb''"
    using case_variant_recognized [of e w] by blast
  with a have "snd (splitext (stem @ e)) = []"
    by (simp add: splitext_case_variant)
  then show "query_gwas w (stem @ e) ids =
      (Inl (GWASQueryError ''Unsupported file type: . Only .parquet and .duckdb are supported.''),
       None)"
    using query_gwas_unsupported [OF assms, of ids] by (simp add: lower_empty)
qed

lemma upper_duckdb_eval:
  "load_duckdb example_world
     (duckdb_file [(''associations_clean'', make_gwas_df [''rs1'', ''rs2'', ''rs1''])]) [''rs2''] =
     (Inr (make_gwas_df [''rs2'']),
      Some \<lparr>catalog = [(''associations_clean'', make_gwas_df [''rs1'', ''rs2'', ''rs1''])],
             filter_rsid = None, is_closed = True,
             executed = [ShowTables, CreateTempTable, InsertValues [''rs2''],
                         SelectJoin ''associations_clean'']\<rparr>)"
proof -
  let ?T = "make_gwas_df [''rs1'', ''rs2'', ''rs1'']"
  let ?db = "[(''associations_clean'', ?T)]"
  have r: "resolve_table (map fst ?db) = Inr ''associations_clean''"
    by (simp add: resolve_table_def)
  have t: "map_of ?db ''associations_clean'' = Some ?T"
    by simp
  have c: "find (\<lambda>c. ascii_lower c = ''rsid'') (columns ?T) = Some ''rsid''"
    by (rule find_rsid_examples(1)) (simp add: make_gwas_df_def)
  have s: "list_all (\<lambda>r. CHR 0x27 \<notin> set r) [''rs2'']"
    by simp
  show ?thesis
    using example_duckdb_load [OF r example_engine(1) t c s]
    by (simp add: small_batch inner_join_make_gwas_df)
qed

theorem case_variant_dispatched_witness:
  "case_variant ''.PARQUET'' ''.parquet'' \<and>
   list_ex (\<lambda>c. c \<noteq> CHR ''.'') (last_component ''data/GWAS'') \<and>
   query_gwas example_world ''data/GWAS.PARQUET'' [''rs2''] =
     (Inr (make_gwas_df [''rs2'']), None) \<and>
   case_variant ''.DuckDB'' ''.duckdb'' \<and>
   list_ex (\<lambda>c. c \<noteq> CHR ''.'') (last_component ''data/Gwas'') \<and>
   query_gwas example_world ''data/Gwas.DuckDB'' [''rs2''] =
     (Inr (make_gwas_df [''rs2'']),
      Some \<lparr>catalog = [(''associations_clean'', make_gwas_df [''rs1'', ''rs2'', ''rs1''])],
             filter_rsid = None, is_closed = True,
             executed = [ShowTables, CreateTempTable, InsertValues [''rs2''],
                         SelectJoin ''associations_clean'']\<rparr>) \<and>
   \<not> list_ex (\<lambda>c. c \<noteq> CHR ''.'') (last_component ''data/'') \<and>
   query_gwas example_world ''data/.DuckDB'' [''rs2''] =
     (Inl (GWASQueryError ''Unsupported file type: . Only .parquet and .duckdb are supported.''),
      None)"
proof -
  have v: "case_variant ''.PARQUET'' ''.parquet''" "case_variant ''.DuckDB'' ''.duckdb''"
    by (simp_all add: case_variant_def)
  have c: "list_ex (\<lambda>c. c \<noteq> CHR ''.'') (last_component ''data/GWAS'')"
    "list_ex (\<lambda>c. c \<noteq> CHR ''.'') (last_component ''data/Gwas'')"
    "\<not> list_ex (\<lambda>c. c \<noteq> CHR ''.'') (last_component ''data/'')"
    by (simp_all add: last_component_def)
  have f1: "files example_world (''data/GWAS'' @ ''.PARQUET'') =
              Some (parquet_file (make_gwas_df [''rs1'', ''rs2'', ''rs1'']))"
    and f2: "files example_world (''data/Gwas'' @ ''.DuckDB'') =
              Some (duckdb_file [(''associations_clean'', make_gwas_df [''rs1'', ''rs2'', ''rs1''])])"
    and f3: "files example_world (''data/'' @ ''.DuckDB'') =
              Some (duckdb_file [(''associations_clean'', make_gwas_df [''rs1'', ''rs2'', ''rs1''])])"
    by (simp_all add: files_examples)
  from case_variant_dispatched [OF f1, of "[''rs2'']"] v c
  have 1: "query_gwas example_world ''data/GWAS.PARQUET'' [''rs2''] =
             (Inr (make_gwas_df [''rs2'']), None)"
    by (simp add: parquet_file_def isin_filter_make_gwas_df missing_make_gwas_df
        select_make_gwas_df)
  from case_variant_dispatched [OF f2, of "[''rs2'']"] v c
  have 2: "query_gwas example_world ''data/Gwas.DuckDB'' [''rs2''] =
     (Inr (make_gwas_df [''rs2'']),
      Some \<lparr>catalog = [(''associations_clean'', make_gwas_df [''rs1'', ''rs2'', ''rs1''])],
             filter_rsid = None, is_closed = True,
             executed = [ShowTables, CreateTempTable, InsertValues [''rs2''],
                         SelectJoin ''associations_clean'']\<rparr>)"
    by (simp add: upper_duckdb_eval missing_make_gwas_df select_make_gwas_df)
  from case_variant_dispatched [OF f3, of "[''rs2'']"] v c
  have 3: "query_gwas example_world ''data/.DuckDB'' [''rs2''] =
     (Inl (GWASQueryError ''Unsupported file type: . Only .parquet and .duckdb are supported.''),
      None)"
    by simp
  show ?thesis
    using v c 1 2 3 by simp
qed

subsection \<open>Batched inserts and the join\<close>

lemma query_gwas_connection:
  assumes "query_gwas w p ids = (res, Some con)"
  shows "\<exists>f r. load_duckdb w f ids = (r, Some con) \<and> ((\<exists>df. res = Inr df) \<longrightarrow> (\<exists>df. r = Inr df))"
  using assms
  by (auto simp: query_gwas_def load_gwas_def Let_def
      split: option.splits if_splits prod.splits sum.splits)

text \<open>
  Claim C4. Whenever a call of \<open>query_gwas\<close> opens a connection, the statements it executes
  are an initial part of: \<open>SHOW TABLES\<close>, the creation of the temporary table, one insert
  for each chunk of the identifier list, and the inner join of the chosen table with the
  temporary table; a call that returns a table has executed all of them. The chunks are
  not empty, hold at most 50,000 identifiers each, and make up the identifier list in its
  order. No statement other than the inserts carries identifiers: the join names the two
  tables only.
\<close>

theorem inserts_in_batches:
  assumes "query_gwas w p ids = (res, Some con)"
  shows "\<exists>tbl rest.
           executed con @ rest =
             ShowTables # CreateTempTable # map InsertValues (batches ids 0) @ [SelectJoin tbl] \<and>
           ((\<exists>df. res = Inr df) \<longrightarrow> rest = []) \<and>
           concat (batches ids 0) = ids \<and>
           (\<forall>c \<in> set (batches ids 0). c \<noteq> [] \<and> length c \<le> 50000)"
proof -
  from query_gwas_connection [OF assms]
  obtain f r where l: "load_duckdb w f ids = (r, Some con)"
    and ok: "(\<exists>df. res = Inr df) \<longrightarrow> (\<exists>df. r = Inr df)"
    by blast
  from load_duckdb_log [OF l]
  obtain tbl rest where
    "executed con @ rest =
       ShowTables # CreateTempTable # map InsertValues (batches ids 0) @ [SelectJoin tbl]"
    "(\<exists>df. r = Inr df) \<longrightarrow> rest = []"
    by blast
  moreover have "concat (batches ids 0) = ids"
    by (simp add: concat_batches)
  moreover have "\<forall>c \<in> set (batches ids 0). c \<noteq> [] \<and> length c \<le> 50000"
    using batches_bounds [of _ ids 0] by (auto simp: chunk_size_def)
  ultimately show ?thesis
    using ok by blast
qed

lemma two_batches: "batches (replicate 50001 r) 0 = [replicate 50000 r, [r]]"
  by (subst batches.simps, subst batches.simps, subst batches.simps)
     (simp add: chunk_size_def)

lemma many_ids_eval:
  "query_gwas example_world ''gwas.duckdb'' (replicate 50001 ''rs2'') =
     (Inr (make_gwas_df (replicate 50001 ''rs2'')),
      Some \<lparr>catalog = [(''associations_clean'', make_gwas_df [''rs1'', ''rs2'', ''rs1''])],
             filter_rsid = None, is_closed = True,
             executed = [ShowTables, CreateTempTable, InsertValues (replicate 50000 ''rs2''),
                         InsertValues [''rs2''], SelectJoin ''associations_clean'']\<rparr>)"
proof -
  have ne: "replicate 50001 ''rs2'' \<noteq> []" by simp
  have safe: "list_all (\<lambda>r. CHR 0x27 \<notin> set r) (replicate 50001 ''rs2'')"
    by (simp add: list_all_iff)
  show ?thesis
    by (simp add: gwas_duckdb_load [OF safe ne] two_batches)
qed

theorem inserts_in_batches_witness:
  "query_gwas example_world ''gwas.duckdb'' (replicate 50001 ''rs2'') =
     (Inr (make_gwas_df (replicate 50001 ''rs2'')),
      Some \<lparr>catalog = [(''associations_clean'', make_gwas_df [''rs1'', ''rs2'', ''rs1''])],
             filter_rsid = None, is_closed = True,
             executed = [ShowTables, CreateTempTable, InsertValues (replicate 50000 ''rs2''),
                         InsertValues [''rs2''], SelectJoin ''associations_clean'']\<rparr>) \<and>
   batches (replicate 50001 ''rs2'') 0 = [replicate 50000 ''rs2'', [''rs2'']] \<and>
   concat (batches (replicate 50001 ''rs2'') 0) = replicate 50001 ''rs2'' \<and>
   map length (batches (replicate 50001 ''rs2'') 0) = [50000, 1]"
proof -
  from inserts_in_batches [OF many_ids_eval]
  have "concat (batches (replicate 50001 ''rs2'') 0) = replicate 50001 ''rs2''"
    by blast
  then show ?thesis
    using many_ids_eval by (simp add: two_batches)
qed

subsection \<open>The table chosen, and when the connection is closed\<close>

text \<open>
  The choice of the table, case by case.
\<close>

lemma resolve_table_cases:
  "''associations_clean'' \<in> set tables \<Longrightarrow> resolve_table tables = Inr ''associations_clean''"
  "''associations_clean'' \<notin> set tables \<Longrightarrow> tables \<noteq> [] \<Longrightarrow>
     resolve_table tables = Inr (hd tables)"
  "resolve_table [] = Inl (GWASQueryError ''No tables found in DuckDB file.'')"
  by (simp_all add: resolve_table_def)

text \<open>
  Every database without tables gives the wrapped message, and leaves the connection open.
\<close>

lemma no_tables_always_wrapped:
  assumes "files w p = Some f" "lower w (snd (splitext p)) = ''.duckdb''" "ids \<noteq> []"
    and "duckdb_connect f = Inr []"
  shows "query_gwas w p ids =
           (Inl (GWASQueryError ''Failed to load GWAS file: No tables found in DuckDB file.''),
            Some \<lparr>catalog = [], filter_rsid = None, is_closed = False, executed = [ShowTables]\<rparr>)"
  using assms(4)
  by (simp add: query_gwas_duckdb [OF assms(1-3)] load_duckdb_def show_tables_def connect_def
      resolve_table_def)

text \<open>
  The connection a call opened is closed when the call returns, exactly if the load step
  went through: a returned table or the missing-columns error, not a load failure.
\<close>

lemma connection_closed_iff_loaded:
  assumes "query_gwas w p ids = (res, Some con)"
  shows "is_closed con =
           (\<forall>cause. res \<noteq> Inl (GWASQueryError (''Failed to load GWAS file: '' @ cause)))"
proof -
  from assms obtain f where f: "files w p = Some f"
    by (auto simp: query_gwas_def split: option.splits)
  from assms f have e: "lower w (snd (splitext p)) = ''.duckdb''" and ne: "ids \<noteq> []"
    by (auto simp: query_gwas_def load_gwas_def Let_def split: if_splits prod.splits sum.splits)
  obtain r c where l: "load_duckdb w f ids = (r, c)"
    by (cases "load_duckdb w f ids") auto
  show ?thesis
  proof (cases r)
    case (Inl err)
    with assms l have "res = Inl (GWASQueryError (''Failed to load GWAS file: '' @ str err))"
      and "c = Some con"
      by (simp_all add: query_gwas_duckdb [OF f e ne])
    with l Inl load_duckdb_log [of w f ids r con] show ?thesis
      by auto
  next
    case (Inr df)
    with assms l have c: "c = Some con"
      and "res = Inl (GWASQueryError (''Missing required columns: '' @
                        join_str '', '' (missing_columns df))) \<or>
           res = Inr (select_columns df REQUIRED_COLUMNS)"
      by (auto simp: query_gwas_duckdb [OF f e ne] split: if_splits)
    then have "\<forall>cause. res \<noteq> Inl (GWASQueryError (''Failed to load GWAS file: '' @ cause))"
      by auto
    with l Inr c load_duckdb_log [of w f ids r con] show ?thesis
      by auto
  qed
qed

end
